theory Spec2Isabelle
  imports Complex_Main
begin

section \<open>Python values\<close>

text \<open>
  A Python float. A finite double is represented by the rational number it denotes
  exactly; the three special values are constructors of their own. Only literals,
  conversions and comparisons of floats occur in the code modelled here, and these are
  exact on doubles.
\<close>

datatype pyfloat = Fin rat | PosInf | NegInf | NaN

text \<open>Python's \<^verbatim>\<open>a >= b\<close> on floats: false as soon as one side is nan.\<close>

fun float_ge :: "pyfloat \<Rightarrow> pyfloat \<Rightarrow> bool" where
  "float_ge NaN _ = False"
| "float_ge _ NaN = False"
| "float_ge PosInf _ = True"
| "float_ge _ NegInf = True"
| "float_ge NegInf _ = False"
| "float_ge _ PosInf = False"
| "float_ge (Fin a) (Fin b) = (b \<le> a)"

text \<open>
  The float literals of the source, each as the double that the literal denotes
  (the double nearest to the decimal, written as an exact fraction).
\<close>

definition f_0_0 :: pyfloat where "f_0_0 = Fin 0"
definition f_0_3 :: pyfloat where "f_0_3 = Fin (5404319552844595 / 18014398509481984)"
definition f_0_5 :: pyfloat where "f_0_5 = Fin (1 / 2)"
definition f_0_70 :: pyfloat where "f_0_70 = Fin (3152519739159347 / 4503599627370496)"
definition f_0_80 :: pyfloat where "f_0_80 = Fin (3602879701896397 / 4503599627370496)"
definition f_0_82 :: pyfloat where "f_0_82 = Fin (7385903388887613 / 9007199254740992)"
definition f_0_85 :: pyfloat where "f_0_85 = Fin (7656119366529843 / 9007199254740992)"
definition f_0_88 :: pyfloat where "f_0_88 = Fin (7926335344172073 / 9007199254740992)"
definition f_0_90 :: pyfloat where "f_0_90 = Fin (8106479329266893 / 9007199254740992)"
definition f_0_92 :: pyfloat where "f_0_92 = Fin (8286623314361713 / 9007199254740992)"
definition f_0_95 :: pyfloat where "f_0_95 = Fin (4278419646001971 / 4503599627370496)"

text \<open>
  The values that flow through the untyped fields of the program: what
  \<^verbatim>\<open>json.loads\<close> can return and what the rule table holds. A dict is an
  association list in insertion order, its keys distinct.
\<close>

datatype pyval =
    PNone
  | PBool bool
  | PInt int
  | PFloat pyfloat
  | PStr string
  | PList "pyval list"
  | PDict "(string \<times> pyval) list"

text \<open>The exceptions that the modelled code can meet.\<close>

datatype exn =
    ApiException int string
  | JSONDecodeError
  | TypeError
  | AttributeError
  | ValueError
  | IndexError
  | OtherException string

fun is_api_exception :: "exn \<Rightarrow> bool" where
  "is_api_exception (ApiException _ _) = True"
| "is_api_exception _ = False"

text \<open>
  An f-string: literal text, interpolated values (rendered by \<^verbatim>\<open>str\<close>) and
  the text of an exception (\<^verbatim>\<open>str(e)\<close>), in order. The rendering itself is
  the interpreter's and is not needed.
\<close>

datatype frag = Lit string | Fmt pyval | ExnText exn

type_synonym fstring = "frag list"

text \<open>
  A result dict in insertion order. A value of it is an f-string (the message and the
  error text) or a plain value.
\<close>

datatype rval = RText fstring | RVal pyval

type_synonym result = "(string \<times> rval) list"

text \<open>Truthiness, as \<^verbatim>\<open>if x:\<close> tests it.\<close>

fun truthy :: "pyval \<Rightarrow> bool" where
  "truthy PNone = False"
| "truthy (PBool b) = b"
| "truthy (PInt i) = (i \<noteq> 0)"
| "truthy (PFloat (Fin r)) = (r \<noteq> 0)"
| "truthy (PFloat _) = True"
| "truthy (PStr s) = (s \<noteq> [])"
| "truthy (PList xs) = (xs \<noteq> [])"
| "truthy (PDict kvs) = (kvs \<noteq> [])"

text \<open>
  \<^verbatim>\<open>d.get(key, default)\<close>: defined on a dict only; any other receiver has no
  attribute \<^verbatim>\<open>get\<close>.
\<close>

fun py_get :: "pyval \<Rightarrow> string \<Rightarrow> pyval \<Rightarrow> exn + pyval" where
  "py_get (PDict kvs) k d = Inr (case map_of kvs k of Some v \<Rightarrow> v | None \<Rightarrow> d)"
| "py_get _ k d = Inl AttributeError"

section \<open>Alerts and remediation actions\<close>

text \<open>
  An alert as AlertManager posts it. A missing \<^verbatim>\<open>labels\<close> or
  \<^verbatim>\<open>annotations\<close> object reads as the empty map, as
  \<^verbatim>\<open>alert.get("labels", {})\<close> does.
\<close>

record alert =
  labels :: "string \<rightharpoonup> string"
  annotations :: "string \<rightharpoonup> string"

text \<open>
  The dataclass \<^verbatim>\<open>RemediationAction\<close>. Its annotations are not enforced:
  the reasoner's path stores whatever the reply holds, so the three untyped fields are
  values. The confidence always is a float, the reason always a string.
\<close>

record action =
  action_type :: pyval
  target :: pyval
  parameters :: pyval
  confidence :: pyfloat
  reason :: fstring

section \<open>PatternMatcher\<close>

text \<open>
  The regular expressions of the rule table use literal characters, \<^verbatim>\<open>.\<close>,
  \<^verbatim>\<open>.*\<close> and a top-level \<^verbatim>\<open>|\<close> only. A pattern is the list of its
  alternatives, an alternative the list of its items.
\<close>

datatype item = Ch char | AnyCh | AnyStar

type_synonym regex = "item list list"

definition lit :: "string \<Rightarrow> item list" where
  "lit s = map Ch s"

definition lower_char :: "char \<Rightarrow> char" where
  "lower_char c =
     (case map_of (zip ''ABCDEFGHIJKLMNOPQRSTUVWXYZ'' ''abcdefghijklmnopqrstuvwxyz'') c of
        Some d \<Rightarrow> d
      | None \<Rightarrow> c)"

definition lower :: "string \<Rightarrow> string" where
  "lower s = map lower_char s"

text \<open>
  Matching an alternative at the start of the text. With \<^verbatim>\<open>re.IGNORECASE\<close> a
  literal matches in either case; \<^verbatim>\<open>.\<close> matches any character but a newline.
\<close>

fun match_here :: "item list \<Rightarrow> string \<Rightarrow> bool" where
  "match_here [] s = True"
| "match_here (AnyStar # r) [] = match_here r []"
| "match_here (AnyStar # r) (d # s) =
     (match_here r (d # s) \<or> (d \<noteq> CHR 0x0A \<and> match_here (AnyStar # r) s))"
| "match_here (Ch c # r) [] = False"
| "match_here (Ch c # r) (d # s) = (lower_char c = lower_char d \<and> match_here r s)"
| "match_here (AnyCh # r) [] = False"
| "match_here (AnyCh # r) (d # s) = (d \<noteq> CHR 0x0A \<and> match_here r s)"

text \<open>\<^verbatim>\<open>re.search\<close>: some alternative matches at some position.\<close>

fun search_alt :: "item list \<Rightarrow> string \<Rightarrow> bool" where
  "search_alt r [] = match_here r []"
| "search_alt r (d # s) = (match_here r (d # s) \<or> search_alt r s)"

definition re_search :: "regex \<Rightarrow> string \<Rightarrow> bool" where
  "re_search p s = list_ex (\<lambda>r. search_alt r s) p"

record rule =
  rule_name :: string
  alert_name :: string
  pattern :: regex
  rule_action :: action

text \<open>\<^verbatim>\<open>PatternMatcher._load_patterns\<close>: the rule table, in the source's order.\<close>

definition load_patterns :: "rule list" where
  "load_patterns = [
     \<lparr> rule_name = ''pod_crash_loop'', alert_name = ''PodCrashLooping'',
       pattern = [lit ''crash'' @ [AnyStar] @ lit ''loop''],
       rule_action = \<lparr> action_type = PStr ''restart'', target = PStr ''pod'',
         parameters = PDict [(''grace_period'', PInt 30)],
         confidence = f_0_95,
         reason = [Lit ''Pod is crash looping - restart with fresh state''] \<rparr> \<rparr>,
     \<lparr> rule_name = ''service_down'', alert_name = ''ServiceDown'',
       pattern = [lit ''service'' @ [AnyStar] @ lit ''down'',
                  lit ''up'' @ [AnyStar] @ lit ''== 0''],
       rule_action = \<lparr> action_type = PStr ''restart'', target = PStr ''deployment'',
         parameters = PDict [(''replicas'', PStr ''current'')],
         confidence = f_0_90,
         reason = [Lit ''Service is down - restart all pods''] \<rparr> \<rparr>,
     \<lparr> rule_name = ''pod_not_ready'', alert_name = ''PodNotReady'',
       pattern = [lit ''pod'' @ [AnyStar] @ lit ''not ready'', lit ''pending'', lit ''unknown''],
       rule_action = \<lparr> action_type = PStr ''investigate'', target = PStr ''pod'',
         parameters = PDict [(''check_events'', PBool True), (''check_logs'', PBool True)],
         confidence = f_0_70,
         reason = [Lit ''Pod not ready - needs investigation''] \<rparr> \<rparr>,
     \<lparr> rule_name = ''memory_leak'', alert_name = ''MemoryLeakDetected'',
       pattern = [lit ''memory'' @ [AnyStar] @ lit ''leak'',
                  lit ''memory'' @ [AnyStar] @ lit ''95''],
       rule_action = \<lparr> action_type = PStr ''restart'', target = PStr ''pod'',
         parameters = PDict [(''drain_connections'', PBool True), (''grace_period'', PInt 60)],
         confidence = f_0_92,
         reason = [Lit ''Memory leak detected - restart to reclaim memory''] \<rparr> \<rparr>,
     \<lparr> rule_name = ''high_memory_usage'', alert_name = ''HighMemoryUsage'',
       pattern = [lit ''memory'' @ [AnyStar] @ lit ''85'', lit ''high memory''],
       rule_action = \<lparr> action_type = PStr ''scale'', target = PStr ''deployment'',
         parameters = PDict [(''direction'', PStr ''up''), (''increment'', PInt 1)],
         confidence = f_0_80,
         reason = [Lit ''High memory usage - scale horizontally''] \<rparr> \<rparr>,
     \<lparr> rule_name = ''high_cpu'', alert_name = ''HighCPUUsage'',
       pattern = [lit ''cpu'' @ [AnyStar] @ lit ''80'', lit ''high cpu''],
       rule_action = \<lparr> action_type = PStr ''scale'', target = PStr ''deployment'',
         parameters = PDict [(''direction'', PStr ''up''), (''increment'', PInt 1)],
         confidence = f_0_85,
         reason = [Lit ''High CPU usage - scale horizontally''] \<rparr> \<rparr>,
     \<lparr> rule_name = ''high_error_rate'', alert_name = ''HighErrorRate'',
       pattern = [lit ''error rate'' @ [AnyStar] @ lit ''5'',
                  lit ''errors'' @ [AnyStar] @ lit ''high''],
       rule_action = \<lparr> action_type = PStr ''rollback'', target = PStr ''deployment'',
         parameters = PDict [(''revisions_back'', PInt 1)],
         confidence = f_0_88,
         reason = [Lit ''High error rate - likely bad deployment, rollback''] \<rparr> \<rparr>,
     \<lparr> rule_name = ''high_latency'', alert_name = ''HighLatency'',
       pattern = [lit ''latency'' @ [AnyStar] @ lit ''0'' @ [AnyCh] @ lit ''5'',
                  lit ''slow'' @ [AnyStar] @ lit ''response''],
       rule_action = \<lparr> action_type = PStr ''scale'', target = PStr ''deployment'',
         parameters = PDict [(''direction'', PStr ''up''), (''increment'', PInt 2)],
         confidence = f_0_82,
         reason = [Lit ''High latency - scale to handle load''] \<rparr> \<rparr>,
     \<lparr> rule_name = ''too_few_replicas'', alert_name = ''TooFewReplicas'',
       pattern = [lit ''too few replicas'', lit ''replicas'' @ [AnyStar] @ lit ''low''],
       rule_action = \<lparr> action_type = PStr ''scale'', target = PStr ''deployment'',
         parameters = PDict [(''direction'', PStr ''up''), (''to_spec'', PBool True)],
         confidence = f_0_95,
         reason = [Lit ''Replicas below specification - scale to match spec''] \<rparr> \<rparr>
   ]"

text \<open>
  The loop of \<^verbatim>\<open>PatternMatcher.classify\<close> over the rules: a rule fires on its
  alert name or on its pattern, and the first rule that fires returns.
\<close>

fun classify_rules :: "rule list \<Rightarrow> string \<Rightarrow> string \<Rightarrow> action option" where
  "classify_rules [] an descr = None"
| "classify_rules (r # rs) an descr =
     (if alert_name r = an then Some (rule_action r)
      else if re_search (pattern r) descr then Some (rule_action r)
      else classify_rules rs an descr)"

definition pm_classify :: "alert \<Rightarrow> action option" where
  "pm_classify a =
     (let an = (case labels a ''alertname'' of Some v \<Rightarrow> v | None \<Rightarrow> '''');
          descr = lower (case annotations a ''description'' of Some v \<Rightarrow> v | None \<Rightarrow> '''')
      in classify_rules load_patterns an descr)"

definition get_confidence_threshold :: pyfloat where
  "get_confidence_threshold = f_0_85"

section \<open>The environment\<close>

text \<open>
  What the Kubernetes client returns. Only the attributes that the code reads are kept.
  \<^verbatim>\<open>spec.replicas\<close> is a value, since the code also assigns to it.
\<close>

record deployment =
  replicas :: pyval
  template_annotations :: "(string \<times> string) list option"
  meta_annotations :: "(string \<times> string) list option"
  available_replicas :: pyval
  ready_replicas :: pyval
  updated_replicas :: pyval

record pod_condition =
  cond_type :: pyval
  cond_status :: pyval
  cond_reason :: pyval

record container_status =
  cs_name :: pyval
  cs_ready :: pyval
  cs_restart_count :: pyval

record pod =
  phase :: pyval
  conditions :: "pod_condition list option"
  container_statuses :: "container_status list option"

text \<open>An event; \<open>ev_timestamp\<close> is \<^verbatim>\<open>str(e.last_timestamp)\<close>.\<close>

record event =
  ev_type :: pyval
  ev_reason :: pyval
  ev_message :: pyval
  ev_timestamp :: string

text \<open>
  The calls that leave the process towards the cluster, with their arguments: the
  namespace first, then the object's name. The executor records every call it issues.
\<close>

datatype api_call =
    ReadDeployment string string
  | PatchDeployment string string deployment
  | DeletePod string string pyval
  | ReadPod string string
  | ReadPodLog string string nat
  | ListEvents string fstring
  | KubectlRolloutUndo string string pyval


text \<open>
  The message posted to the chat webhook, reduced to the parts that depend on the
  action and the result; the layout of the blocks is left out.
\<close>

record slack_message =
  color :: string
  action_upper :: string
  executed_text :: "rval option"
  runbook :: "string option"

text \<open>
  Everything outside the repository is a parameter: the standard library's
  \<^verbatim>\<open>json.loads\<close>, \<^verbatim>\<open>float\<close> and \<^verbatim>\<open>int\<close> on the inputs where
  they parse or round, float arithmetic, the clock, the reasoning service, the cluster
  and the chat webhook. Each answers with a value or with the exception it raises. The
  cluster's answers may depend on the calls issued before.
\<close>

record world =
  json_loads :: "string \<Rightarrow> exn + pyval"
  float_conv :: "pyval \<Rightarrow> exn + pyfloat"
  int_of_str :: "string \<Rightarrow> exn + int"
  float_add :: "pyval \<Rightarrow> pyval \<Rightarrow> exn + pyfloat"
  float_sub :: "pyval \<Rightarrow> pyval \<Rightarrow> exn + pyfloat"
  strftime_now :: "api_call list \<Rightarrow> string"
  chat_completion :: "alert \<Rightarrow> exn + string"
  read_deployment :: "api_call list \<Rightarrow> string \<Rightarrow> string \<Rightarrow> exn + deployment"
  patch_deployment :: "api_call list \<Rightarrow> string \<Rightarrow> string \<Rightarrow> deployment \<Rightarrow> exn option"
  delete_pod :: "api_call list \<Rightarrow> string \<Rightarrow> string \<Rightarrow> pyval \<Rightarrow> exn option"
  read_pod :: "api_call list \<Rightarrow> string \<Rightarrow> string \<Rightarrow> exn + pod"
  read_pod_log :: "api_call list \<Rightarrow> string \<Rightarrow> string \<Rightarrow> exn + string"
  list_events :: "api_call list \<Rightarrow> string \<Rightarrow> fstring \<Rightarrow> exn + event list"
  kubectl_rollout_undo :: "api_call list \<Rightarrow> string \<Rightarrow> string \<Rightarrow> pyval \<Rightarrow> exn + int \<times> string"
  slack_post :: "slack_message \<Rightarrow> exn + int"

text \<open>Sequencing of steps that may raise: the first exception ends the block.\<close>

definition exn_bind :: "exn + 'a \<Rightarrow> ('a \<Rightarrow> exn + 'b) \<Rightarrow> exn + 'b" where
  "exn_bind m f = (case m of Inl e \<Rightarrow> Inl e | Inr v \<Rightarrow> f v)"

section \<open>AIAnalyzer\<close>

text \<open>\<^verbatim>\<open>str.strip()\<close>: the characters for which \<^verbatim>\<open>isspace\<close> holds.\<close>

definition is_space :: "char \<Rightarrow> bool" where
  "is_space c =
     (let n = (of_char c :: nat)
      in (9 \<le> n \<and> n \<le> 13) \<or> (28 \<le> n \<and> n \<le> 32) \<or> n = 133 \<or> n = 160)"

definition strip :: "string \<Rightarrow> string" where
  "strip s = rev (dropWhile is_space (rev (dropWhile is_space s)))"

definition startswith :: "string \<Rightarrow> string \<Rightarrow> bool" where
  "startswith s p = (take (length p) s = p)"

definition fence :: string where
  "fence = [CHR 0x60, CHR 0x60, CHR 0x60]"

text \<open>
  \<^verbatim>\<open>s.split("```")\<close>: the pieces between the occurrences of the fence, scanned
  from the left; \<open>acc\<close> is the piece being read, reversed.
\<close>

function split_fence :: "string \<Rightarrow> string \<Rightarrow> string list" where
  "split_fence acc [] = [rev acc]"
| "split_fence acc (c # cs) =
     (if take 3 (c # cs) = fence then rev acc # split_fence [] (drop 3 (c # cs))
      else split_fence (c # acc) cs)"
  by pat_completeness auto
termination
  by (relation "measure (\<lambda>(acc, s). length s)") auto

definition index1 :: "'a list \<Rightarrow> exn + 'a" where
  "index1 xs = (case xs of _ # x # _ \<Rightarrow> Inr x | _ \<Rightarrow> Inl IndexError)"

text \<open>
  \<^verbatim>\<open>float(x)\<close>: a float is itself, a bool or a small int converts exactly, a
  string is parsed and a large int rounded by the library, anything else is a type
  error.
\<close>

fun py_float :: "world \<Rightarrow> pyval \<Rightarrow> exn + pyfloat" where
  "py_float w (PFloat f) = Inr f"
| "py_float w (PBool b) = Inr (Fin (if b then 1 else 0))"
| "py_float w (PInt i) =
     (if \<bar>i\<bar> \<le> 9007199254740992 then Inr (Fin (of_int i)) else float_conv w (PInt i))"
| "py_float w (PStr s) = float_conv w (PStr s)"
| "py_float w _ = Inl TypeError"

text \<open>
  The first lines of the \<^verbatim>\<open>try\<close> block of \<^verbatim>\<open>_parse_ai_response\<close>: the
  text handed to \<^verbatim>\<open>json.loads\<close>, a surrounding code fence removed.
\<close>

definition extract_json :: "string \<Rightarrow> exn + string" where
  "extract_json ai_response =
     exn_bind
       (let response_text = strip ai_response
        in if startswith response_text fence
           then exn_bind (index1 (split_fence [] response_text))
                  (\<lambda>t. Inr (if startswith t ''json'' then drop 4 t else t))
           else Inr response_text)
       (\<lambda>response_text. Inr (strip response_text))"

text \<open>
  The construction of the action from the parsed reply. The keyword arguments are
  evaluated in the order written; none of the values is checked.
\<close>

definition build_action :: "world \<Rightarrow> pyval \<Rightarrow> exn + action" where
  "build_action w parsed =
     exn_bind (py_get parsed ''action_type'' (PStr ''investigate'')) (\<lambda>aty.
     exn_bind (py_get parsed ''target'' (PStr ''pod'')) (\<lambda>tg.
     exn_bind (py_get parsed ''parameters'' (PDict [])) (\<lambda>ps.
     exn_bind (py_get parsed ''confidence'' (PFloat f_0_5)) (\<lambda>cv.
     exn_bind (py_float w cv) (\<lambda>c.
     exn_bind (py_get parsed ''reason'' (PStr ''No reason provided'')) (\<lambda>rs.
       Inr \<lparr> action_type = aty, target = tg, parameters = ps, confidence = c,
             reason = [Lit ''AI Analysis: '', Fmt rs] \<rparr>))))))"

text \<open>The \<^verbatim>\<open>try\<close> block of \<^verbatim>\<open>_parse_ai_response\<close>.\<close>

definition parse_body :: "world \<Rightarrow> string \<Rightarrow> exn + action" where
  "parse_body w ai_response =
     exn_bind (extract_json ai_response) (\<lambda>response_text.
     exn_bind (json_loads w response_text) (\<lambda>parsed.
       build_action w parsed))"

text \<open>
  \<^verbatim>\<open>AIAnalyzer._parse_ai_response\<close>: the two handlers turn every exception of
  the block into an investigate action.
\<close>

definition parse_ai_response :: "world \<Rightarrow> string \<Rightarrow> action" where
  "parse_ai_response w ai_response =
     (case parse_body w ai_response of
        Inr a \<Rightarrow> a
      | Inl JSONDecodeError \<Rightarrow>
          \<lparr> action_type = PStr ''investigate'', target = PStr ''pod'',
            parameters = PDict [(''ai_response'', PStr (take 500 ai_response))],
            confidence = f_0_3,
            reason = [Lit ''AI analysis inconclusive. Response: '',
                      Fmt (PStr (take 200 ai_response)), Lit ''...''] \<rparr>
      | Inl e \<Rightarrow>
          \<lparr> action_type = PStr ''investigate'', target = PStr ''pod'',
            parameters = PDict [],
            confidence = f_0_0,
            reason = [Lit ''AI analysis error: '', ExnText e] \<rparr>)"

text \<open>
  \<^verbatim>\<open>AIAnalyzer.analyze_alert\<close>; \<open>available\<close> is
  \<^verbatim>\<open>self.client is not None\<close>. Building the context and the request are
  the environment's \<open>chat_completion\<close>, which answers with the reply's text; an
  exception of either, or a reply without text, is its \<open>Inl\<close>. The handler of the
  \<^verbatim>\<open>try\<close> block returns \<^verbatim>\<open>None\<close>.
\<close>

definition analyze_alert :: "world \<Rightarrow> bool \<Rightarrow> alert \<Rightarrow> action option" where
  "analyze_alert w available a =
     (if \<not> available then None
      else (case exn_bind (chat_completion w a) (\<lambda>ai_response.
                   Inr (parse_ai_response w ai_response)) of
              Inl e \<Rightarrow> None
            | Inr act \<Rightarrow> Some act))"

section \<open>HybridClassifier\<close>

record classifier_stats =
  total_alerts :: nat
  rule_based_matches :: nat
  ai_analysis_used :: nat
  auto_executed :: nat
  manual_review :: nat

definition manual_investigation :: action where
  "manual_investigation =
     \<lparr> action_type = PStr ''investigate'', target = PStr ''pod'',
       parameters = PDict [(''reason'', PStr ''No pattern match and AI unavailable'')],
       confidence = f_0_0,
       reason = [Lit ''Unable to classify - requires manual investigation''] \<rparr>"

text \<open>
  \<^verbatim>\<open>HybridClassifier.classify\<close>, returning the action and the updated
  counters.
\<close>

definition classify :: "world \<Rightarrow> bool \<Rightarrow> classifier_stats \<Rightarrow> alert \<Rightarrow> action \<times> classifier_stats" where
  "classify w available st a =
     (let st1 = st\<lparr>total_alerts := total_alerts st + 1\<rparr>
      in case pm_classify a of
           Some act \<Rightarrow> (act, st1\<lparr>rule_based_matches := rule_based_matches st1 + 1\<rparr>)
         | None \<Rightarrow>
             (if available
              then (let st2 = st1\<lparr>ai_analysis_used := ai_analysis_used st1 + 1\<rparr>
                    in case analyze_alert w available a of
                         Some act \<Rightarrow> (act, st2)
                       | None \<Rightarrow> (manual_investigation,
                                  st2\<lparr>manual_review := manual_review st2 + 1\<rparr>))
              else (manual_investigation, st1\<lparr>manual_review := manual_review st1 + 1\<rparr>)))"

text \<open>\<^verbatim>\<open>HybridClassifier.should_auto_execute\<close>, with the updated counters.\<close>

definition should_auto_execute :: "classifier_stats \<Rightarrow> action \<Rightarrow> bool \<Rightarrow> bool \<times> classifier_stats" where
  "should_auto_execute st act dry =
     (if dry then (False, st)
      else if action_type act = PStr ''investigate'' then (False, st)
      else (let should_execute = float_ge (confidence act) get_confidence_threshold
            in (should_execute,
                if should_execute then st\<lparr>auto_executed := auto_executed st + 1\<rparr> else st)))"

section \<open>KubernetesRemediator\<close>

text \<open>
  The executor: its namespace, its dry-run flag, the list \<^verbatim>\<open>actions_taken\<close>
  and, for its two API clients, the calls issued through them so far.
\<close>

record remediator =
  namespace :: string
  dry_run :: bool
  actions_taken :: "result list"
  api_calls :: "api_call list"

subsection \<open>Arithmetic on values\<close>

fun int_like :: "pyval \<Rightarrow> int option" where
  "int_like (PBool b) = Some (if b then 1 else 0)"
| "int_like (PInt i) = Some i"
| "int_like _ = None"

fun is_number :: "pyval \<Rightarrow> bool" where
  "is_number (PBool _) = True"
| "is_number (PInt _) = True"
| "is_number (PFloat _) = True"
| "is_number _ = False"

text \<open>
  \<^verbatim>\<open>x + y\<close> and \<^verbatim>\<open>x - y\<close>: exact on ints and bools, the library's
  rounding as soon as a float takes part, concatenation for \<^verbatim>\<open>+\<close> on two
  strings or two lists, a type error otherwise.
\<close>

definition py_add :: "world \<Rightarrow> pyval \<Rightarrow> pyval \<Rightarrow> exn + pyval" where
  "py_add w x y =
     (case (int_like x, int_like y) of
        (Some a, Some b) \<Rightarrow> Inr (PInt (a + b))
      | _ \<Rightarrow>
          (if is_number x \<and> is_number y
           then exn_bind (float_add w x y) (\<lambda>f. Inr (PFloat f))
           else (case (x, y) of
                   (PStr a, PStr b) \<Rightarrow> Inr (PStr (a @ b))
                 | (PList a, PList b) \<Rightarrow> Inr (PList (a @ b))
                 | _ \<Rightarrow> Inl TypeError)))"

definition py_sub :: "world \<Rightarrow> pyval \<Rightarrow> pyval \<Rightarrow> exn + pyval" where
  "py_sub w x y =
     (case (int_like x, int_like y) of
        (Some a, Some b) \<Rightarrow> Inr (PInt (a - b))
      | _ \<Rightarrow>
          (if is_number x \<and> is_number y
           then exn_bind (float_sub w x y) (\<lambda>f. Inr (PFloat f))
           else Inl TypeError))"

text \<open>\<^verbatim>\<open>x > 1\<close>, the comparison that \<^verbatim>\<open>max(1, x)\<close> makes.\<close>

fun gt_one :: "pyval \<Rightarrow> exn + bool" where
  "gt_one (PBool b) = Inr False"
| "gt_one (PInt i) = Inr (1 < i)"
| "gt_one (PFloat (Fin r)) = Inr (1 < r)"
| "gt_one (PFloat PosInf) = Inr True"
| "gt_one (PFloat _) = Inr False"
| "gt_one _ = Inl TypeError"

definition max_one :: "pyval \<Rightarrow> exn + pyval" where
  "max_one x = exn_bind (gt_one x) (\<lambda>b. Inr (if b then x else PInt 1))"

subsection \<open>The handlers\<close>

text \<open>One call through an API client: it is recorded, then answered.\<close>

definition issue :: "remediator \<Rightarrow> api_call \<Rightarrow> remediator" where
  "issue r c = r\<lparr>api_calls := api_calls r @ [c]\<rparr>"

text \<open>\<^verbatim>\<open>except ApiException as e\<close>: any other exception goes on.\<close>

definition catch_api ::
  "(exn \<Rightarrow> result) \<Rightarrow> (exn + result) \<times> remediator \<Rightarrow> (exn + result) \<times> remediator" where
  "catch_api h x =
     (case x of
        (Inl e, r) \<Rightarrow> (if is_api_exception e then (Inr (h e), r) else (Inl e, r))
      | (Inr v, r) \<Rightarrow> (Inr v, r))"

text \<open>\<^verbatim>\<open>except Exception as e\<close>.\<close>

definition catch_all ::
  "(exn \<Rightarrow> result) \<Rightarrow> (exn + result) \<times> remediator \<Rightarrow> (exn + result) \<times> remediator" where
  "catch_all h x =
     (case x of
        (Inl e, r) \<Rightarrow> (Inr (h e), r)
      | (Inr v, r) \<Rightarrow> (Inr v, r))"

fun api_reason :: "exn \<Rightarrow> string" where
  "api_reason (ApiException st rs) = rs"
| "api_reason _ = []"

definition taken :: "remediator \<Rightarrow> result \<Rightarrow> (exn + result) \<times> remediator" where
  "taken r res = (Inr res, r\<lparr>actions_taken := actions_taken r @ [res]\<rparr>)"

fun dict_set :: "string \<Rightarrow> 'v \<Rightarrow> (string \<times> 'v) list \<Rightarrow> (string \<times> 'v) list" where
  "dict_set k v [] = [(k, v)]"
| "dict_set k v ((k', v') # kvs) =
     (if k' = k then (k, v) # kvs else (k', v') # dict_set k v kvs)"

text \<open>The \<^verbatim>\<open>try\<close> block of \<^verbatim>\<open>_restart\<close>.\<close>

definition restart_try ::
  "world \<Rightarrow> remediator \<Rightarrow> string \<Rightarrow> string option \<Rightarrow> action \<Rightarrow> (exn + result) \<times> remediator" where
  "restart_try w r service_name pod_name act =
     (case (if pod_name = Some [] then None else pod_name) of
        Some pn \<Rightarrow>
          (case py_get (parameters act) ''grace_period'' (PInt 30) of
             Inl e \<Rightarrow> (Inl e, r)
           | Inr grace \<Rightarrow>
               (let r1 = issue r (DeletePod (namespace r) pn grace)
                in case delete_pod w (api_calls r) (namespace r) pn grace of
                     Some e \<Rightarrow> (Inl e, r1)
                   | None \<Rightarrow>
                       taken r1
                         [(''status'', RVal (PStr ''success'')),
                          (''message'', RText [Lit ''Restarted pod '', Lit pn]),
                          (''action'', RVal (PStr ''restart'')),
                          (''target'', RVal (PStr pn))]))
      | None \<Rightarrow>
          (let r1 = issue r (ReadDeployment (namespace r) service_name)
           in case read_deployment w (api_calls r) (namespace r) service_name of
                Inl e \<Rightarrow> (Inl e, r1)
              | Inr d \<Rightarrow>
                  (let anns = (case template_annotations d of
                                 None \<Rightarrow> [] | Some kvs \<Rightarrow> kvs);
                       d' = d\<lparr>template_annotations :=
                                Some (dict_set ''kubectl.kubernetes.io/restartedAt''
                                        (strftime_now w (api_calls r1)) anns)\<rparr>;
                       r2 = issue r1 (PatchDeployment (namespace r) service_name d')
                   in case patch_deployment w (api_calls r1) (namespace r) service_name d' of
                        Some e \<Rightarrow> (Inl e, r2)
                      | None \<Rightarrow>
                          taken r2
                            [(''status'', RVal (PStr ''success'')),
                             (''message'',
                                RText [Lit ''Triggered rolling restart of '', Lit service_name]),
                             (''action'', RVal (PStr ''restart'')),
                             (''target'', RVal (PStr service_name))])))"

text \<open>\<^verbatim>\<open>KubernetesRemediator._restart\<close>.\<close>

definition restart ::
  "world \<Rightarrow> remediator \<Rightarrow> string \<Rightarrow> string option \<Rightarrow> action \<Rightarrow> (exn + result) \<times> remediator" where
  "restart w r service_name pod_name act =
     (if dry_run r
      then (Inr [(''status'', RVal (PStr ''dry_run'')),
                 (''message'', RText [Lit ''Would restart pod(s) for '', Lit service_name]),
                 (''action'', RVal (PStr ''restart''))], r)
      else catch_api
             (\<lambda>e. [(''status'', RVal (PStr ''error'')),
                    (''message'', RText [Lit ''Failed to restart: '', Lit (api_reason e)]),
                    (''error'', RText [ExnText e])])
             (restart_try w r service_name pod_name act))"

text \<open>The new replica count of \<^verbatim>\<open>_scale\<close>.\<close>

definition new_replicas ::
  "world \<Rightarrow> pyval \<Rightarrow> pyval \<Rightarrow> pyval \<Rightarrow> pyval \<Rightarrow> pyval \<Rightarrow> exn + pyval" where
  "new_replicas w current_replicas spec_replicas direction increment to_spec =
     (if truthy to_spec then Inr spec_replicas
      else if direction = PStr ''up'' then py_add w current_replicas increment
      else exn_bind (py_sub w current_replicas increment) max_one)"

text \<open>The \<^verbatim>\<open>try\<close> block of \<^verbatim>\<open>_scale\<close>.\<close>

definition scale_try ::
  "world \<Rightarrow> remediator \<Rightarrow> string \<Rightarrow> pyval \<Rightarrow> pyval \<Rightarrow> pyval \<Rightarrow> (exn + result) \<times> remediator" where
  "scale_try w r deployment_name direction increment to_spec =
     (let r1 = issue r (ReadDeployment (namespace r) deployment_name)
      in case read_deployment w (api_calls r) (namespace r) deployment_name of
           Inl e \<Rightarrow> (Inl e, r1)
         | Inr d \<Rightarrow>
             (let current_replicas = replicas d;
                  spec_replicas = replicas d
              in case new_replicas w current_replicas spec_replicas direction increment to_spec of
                   Inl e \<Rightarrow> (Inl e, r1)
                 | Inr n \<Rightarrow>
                     (let d' = d\<lparr>replicas := n\<rparr>;
                          r2 = issue r1 (PatchDeployment (namespace r) deployment_name d')
                      in case patch_deployment w (api_calls r1) (namespace r) deployment_name d' of
                           Some e \<Rightarrow> (Inl e, r2)
                         | None \<Rightarrow>
                             taken r2
                               [(''status'', RVal (PStr ''success'')),
                                (''message'',
                                   RText [Lit ''Scaled '', Lit deployment_name, Lit '' from '',
                                          Fmt current_replicas, Lit '' to '', Fmt n]),
                                (''action'', RVal (PStr ''scale'')),
                                (''target'', RVal (PStr deployment_name)),
                                (''from'', RVal current_replicas),
                                (''to'', RVal n)])))"

text \<open>
  \<^verbatim>\<open>KubernetesRemediator._scale\<close>. The three parameters are read before the
  dry-run test and outside the \<^verbatim>\<open>try\<close> block.
\<close>

definition scale ::
  "world \<Rightarrow> remediator \<Rightarrow> string \<Rightarrow> action \<Rightarrow> (exn + result) \<times> remediator" where
  "scale w r service_name act =
     (case exn_bind (py_get (parameters act) ''direction'' (PStr ''up'')) (\<lambda>direction.
           exn_bind (py_get (parameters act) ''increment'' (PInt 1)) (\<lambda>increment.
           exn_bind (py_get (parameters act) ''to_spec'' (PBool False)) (\<lambda>to_spec.
             Inr (direction, increment, to_spec)))) of
        Inl e \<Rightarrow> (Inl e, r)
      | Inr (direction, increment, to_spec) \<Rightarrow>
          (if dry_run r
           then (Inr [(''status'', RVal (PStr ''dry_run'')),
                      (''message'',
                         RText [Lit ''Would scale '', Lit service_name, Lit '' '', Fmt direction,
                                Lit '' by '', Fmt increment]),
                      (''action'', RVal (PStr ''scale''))], r)
           else catch_api
                  (\<lambda>e. [(''status'', RVal (PStr ''error'')),
                         (''message'', RText [Lit ''Failed to scale: '', Lit (api_reason e)]),
                         (''error'', RText [ExnText e])])
                  (scale_try w r service_name direction increment to_spec)))"

text \<open>The \<^verbatim>\<open>try\<close> block of \<^verbatim>\<open>_rollback\<close>.\<close>

definition rollback_try ::
  "world \<Rightarrow> remediator \<Rightarrow> string \<Rightarrow> pyval \<Rightarrow> (exn + result) \<times> remediator" where
  "rollback_try w r deployment_name revisions_back =
     (let r1 = issue r (ReadDeployment (namespace r) deployment_name)
      in case read_deployment w (api_calls r) (namespace r) deployment_name of
           Inl e \<Rightarrow> (Inl e, r1)
         | Inr d \<Rightarrow>
             (case meta_annotations d of
                None \<Rightarrow> (Inl AttributeError, r1)
              | Some kvs \<Rightarrow>
                  (let current_revision =
                         (case map_of kvs ''deployment.kubernetes.io/revision'' of
                            Some v \<Rightarrow> v | None \<Rightarrow> ''1'')
                   in case exn_bind (int_of_str w current_revision)
                             (\<lambda>n. py_sub w (PInt n) revisions_back) of
                        Inl e \<Rightarrow> (Inl e, r1)
                      | Inr to_revision \<Rightarrow>
                          (let r2 = issue r1
                                      (KubectlRolloutUndo (namespace r) deployment_name to_revision)
                           in case kubectl_rollout_undo w (api_calls r1) (namespace r)
                                     deployment_name to_revision of
                                Inl e \<Rightarrow> (Inl e, r2)
                              | Inr (returncode, stderr) \<Rightarrow>
                                  (if returncode = 0
                                   then taken r2
                                     [(''status'', RVal (PStr ''success'')),
                                      (''message'',
                                         RText [Lit ''Rolled back '', Lit deployment_name,
                                                Lit '' by '', Fmt revisions_back,
                                                Lit '' revision(s)'']),
                                      (''action'', RVal (PStr ''rollback'')),
                                      (''target'', RVal (PStr deployment_name)),
                                      (''from_revision'', RVal (PStr current_revision))]
                                   else (Inl (OtherException stderr), r2))))))"

text \<open>\<^verbatim>\<open>KubernetesRemediator._rollback\<close>.\<close>

definition rollback ::
  "world \<Rightarrow> remediator \<Rightarrow> string \<Rightarrow> action \<Rightarrow> (exn + result) \<times> remediator" where
  "rollback w r service_name act =
     (case py_get (parameters act) ''revisions_back'' (PInt 1) of
        Inl e \<Rightarrow> (Inl e, r)
      | Inr revisions_back \<Rightarrow>
          (if dry_run r
           then (Inr [(''status'', RVal (PStr ''dry_run'')),
                      (''message'',
                         RText [Lit ''Would rollback '', Lit service_name, Lit '' by '',
                                Fmt revisions_back, Lit '' revision(s)'']),
                      (''action'', RVal (PStr ''rollback''))], r)
           else catch_all
                  (\<lambda>e. [(''status'', RVal (PStr ''error'')),
                         (''message'', RText [Lit ''Failed to rollback: '', ExnText e]),
                         (''error'', RText [ExnText e])])
                  (rollback_try w r service_name revisions_back)))"

definition pod_status_dict :: "pod \<Rightarrow> pyval" where
  "pod_status_dict p =
     PDict [(''phase'', phase p),
            (''conditions'',
               PList (map (\<lambda>c. PDict [(''type'', cond_type c), (''status'', cond_status c),
                                       (''reason'', cond_reason c)])
                          (case conditions p of None \<Rightarrow> [] | Some cs \<Rightarrow> cs))),
            (''container_statuses'',
               PList (map (\<lambda>c. PDict [(''name'', cs_name c), (''ready'', cs_ready c),
                                       (''restart_count'', cs_restart_count c)])
                          (case container_statuses p of None \<Rightarrow> [] | Some cs \<Rightarrow> cs)))]"

text \<open>
  The first part of the \<^verbatim>\<open>try\<close> block of \<^verbatim>\<open>_investigate\<close>: the pod, when
  one is named, and its log; a failure to read the log is passed over.
\<close>

definition investigate_pod ::
  "world \<Rightarrow> remediator \<Rightarrow> string option \<Rightarrow> (exn + (string \<times> pyval) list) \<times> remediator" where
  "investigate_pod w r pod_name =
     (case pod_name of
        None \<Rightarrow> (Inr [], r)
      | Some pn \<Rightarrow>
          (let r1 = issue r (ReadPod (namespace r) pn)
           in case read_pod w (api_calls r) (namespace r) pn of
                Inl e \<Rightarrow> (Inl e, r1)
              | Inr p \<Rightarrow>
                  (let data = [(''pod_status'', pod_status_dict p)];
                       r2 = issue r1 (ReadPodLog (namespace r) pn 50)
                   in case read_pod_log w (api_calls r1) (namespace r) pn of
                        Inl e \<Rightarrow> (Inr data, r2)
                      | Inr logs \<Rightarrow> (Inr (data @ [(''recent_logs'', PStr logs)]), r2))))"

definition investigate_try ::
  "world \<Rightarrow> remediator \<Rightarrow> string \<Rightarrow> string option \<Rightarrow> (exn + result) \<times> remediator" where
  "investigate_try w r service_name pod_name =
     (let pn = (if pod_name = Some [] then None else pod_name)
      in case investigate_pod w r pn of
           (Inl e, r2) \<Rightarrow> (Inl e, r2)
         | (Inr data, r2) \<Rightarrow>
             (let r3 = issue r2 (ReadDeployment (namespace r) service_name);
                  data2 =
                    (case read_deployment w (api_calls r2) (namespace r) service_name of
                       Inl e \<Rightarrow> data
                     | Inr d \<Rightarrow>
                         data @ [(''deployment'',
                                    PDict [(''replicas'', replicas d),
                                           (''available'', available_replicas d),
                                           (''ready'', ready_replicas d),
                                           (''updated'', updated_replicas d)])]);
                  selector = [Lit ''involvedObject.name='',
                              Lit (case pn of Some p \<Rightarrow> p | None \<Rightarrow> service_name)];
                  r4 = issue r3 (ListEvents (namespace r) selector);
                  data3 =
                    (case list_events w (api_calls r3) (namespace r) selector of
                       Inl e \<Rightarrow> data2
                     | Inr evs \<Rightarrow>
                         data2 @ [(''events'',
                                     PList (map (\<lambda>e. PDict [(''type'', ev_type e),
                                                             (''reason'', ev_reason e),
                                                             (''message'', ev_message e),
                                                             (''timestamp'', PStr (ev_timestamp e))])
                                                (take 10 evs)))])
              in (Inr [(''status'', RVal (PStr ''investigation'')),
                       (''message'',
                          RText [Lit ''Gathered diagnostic data - requires manual review'']),
                       (''action'', RVal (PStr ''investigate'')),
                       (''data'', RVal (PDict data3))], r4)))"

text \<open>\<^verbatim>\<open>KubernetesRemediator._investigate\<close>.\<close>

definition investigate ::
  "world \<Rightarrow> remediator \<Rightarrow> string \<Rightarrow> string option \<Rightarrow> action \<Rightarrow> (exn + result) \<times> remediator" where
  "investigate w r service_name pod_name act =
     catch_all
       (\<lambda>e. [(''status'', RVal (PStr ''error'')),
              (''message'', RText [Lit ''Failed to gather diagnostics: '', ExnText e]),
              (''error'', RText [ExnText e])])
       (investigate_try w r service_name pod_name)"

text \<open>
  \<^verbatim>\<open>KubernetesRemediator.execute\<close>: \<open>Inl\<close> is an exception that leaves the
  method, \<open>Inr\<close> the result dict that it returns.
\<close>

definition execute ::
  "world \<Rightarrow> remediator \<Rightarrow> action \<Rightarrow> alert \<Rightarrow> (exn + result) \<times> remediator" where
  "execute w r act al =
     (let service_name = (case labels al ''service'' of Some v \<Rightarrow> v | None \<Rightarrow> ''unknown'');
          pod_name = labels al ''pod''
      in if action_type act = PStr ''restart'' then restart w r service_name pod_name act
         else if action_type act = PStr ''scale'' then scale w r service_name act
         else if action_type act = PStr ''rollback'' then rollback w r service_name act
         else if action_type act = PStr ''investigate''
           then investigate w r service_name pod_name act
         else (Inr [(''status'', RVal (PStr ''error'')),
                    (''message'', RText [Lit ''Unknown action type: '', Fmt (action_type act)])],
               r))"

section \<open>SlackNotifier\<close>

record notifier =
  enabled :: bool
  notifications_sent :: nat
  notifications_failed :: nat

definition upper_char :: "char \<Rightarrow> char" where
  "upper_char c =
     (case map_of (zip ''abcdefghijklmnopqrstuvwxyz'' ''ABCDEFGHIJKLMNOPQRSTUVWXYZ'') c of
        Some d \<Rightarrow> d
      | None \<Rightarrow> c)"

definition upper :: "string \<Rightarrow> string" where
  "upper s = map upper_char s"

fun hashable :: "pyval \<Rightarrow> bool" where
  "hashable (PList _) = False"
| "hashable (PDict _) = False"
| "hashable _ = True"

text \<open>
  \<^verbatim>\<open>SlackNotifier._build_alert_message\<close>. It raises where the action type is
  unhashable (the lookup in \<^verbatim>\<open>emoji_map\<close>) or not a string
  (\<^verbatim>\<open>.upper()\<close>).
\<close>

definition build_alert_message ::
  "alert \<Rightarrow> action \<Rightarrow> result option \<Rightarrow> bool \<Rightarrow> exn + slack_message" where
  "build_alert_message al act execution_result auto =
     (let severity = (case labels al ''severity'' of Some v \<Rightarrow> v | None \<Rightarrow> ''warning'');
          col = (case map_of [(''critical'', ''#dc3545''), (''warning'', ''#ffc107''),
                              (''info'', ''#17a2b8'')] severity of
                   Some c \<Rightarrow> c | None \<Rightarrow> ''#6c757d'')
      in if \<not> hashable (action_type act) then Inl TypeError
         else (case action_type act of
                 PStr t \<Rightarrow>
                   Inr \<lparr> color = col,
                         action_upper = upper t,
                         executed_text =
                           (case execution_result of
                              Some res \<Rightarrow>
                                (if auto \<and> res \<noteq> []
                                 then Some (case map_of res ''message'' of
                                              Some m \<Rightarrow> m
                                            | None \<Rightarrow> RText [Lit ''No details''])
                                 else None)
                            | None \<Rightarrow> None),
                         runbook =
                           (case annotations al ''runbook'' of
                              Some rb \<Rightarrow> (if rb = [] then None else Some rb)
                            | None \<Rightarrow> None) \<rparr>
               | _ \<Rightarrow> Inl AttributeError))"

text \<open>\<^verbatim>\<open>SlackNotifier._send\<close>.\<close>

definition send :: "world \<Rightarrow> notifier \<Rightarrow> slack_message \<Rightarrow> bool \<times> notifier" where
  "send w nt m =
     (case slack_post w m of
        Inr code \<Rightarrow>
          (if code = 200 then (True, nt\<lparr>notifications_sent := notifications_sent nt + 1\<rparr>)
           else (False, nt\<lparr>notifications_failed := notifications_failed nt + 1\<rparr>))
      | Inl e \<Rightarrow> (False, nt\<lparr>notifications_failed := notifications_failed nt + 1\<rparr>))"

text \<open>\<^verbatim>\<open>SlackNotifier.send_alert_notification\<close>.\<close>

definition send_alert_notification ::
  "world \<Rightarrow> notifier \<Rightarrow> alert \<Rightarrow> action \<Rightarrow> result option \<Rightarrow> bool \<Rightarrow> (exn + bool) \<times> notifier" where
  "send_alert_notification w nt al act execution_result auto =
     (if \<not> enabled nt then (Inr False, nt)
      else (case build_alert_message al act execution_result auto of
              Inl e \<Rightarrow> (Inl e, nt)
            | Inr m \<Rightarrow> (case send w nt m of (b, nt') \<Rightarrow> (Inr b, nt'))))"

section \<open>The orchestrator\<close>

text \<open>
  The entries of the two histories, without their timestamps. \<open>ae_action\<close> and
  \<open>ae_error\<close> are the keys that \<^verbatim>\<open>process_alert\<close> adds at its end.
\<close>

record action_summary =
  as_type :: pyval
  as_confidence :: pyfloat
  as_auto_executed :: bool
  as_result :: "result option"

record alert_entry =
  ae_alert :: alert
  ae_status :: string
  ae_action :: "action_summary option"
  ae_error :: "exn option"

record action_entry =
  he_alert :: string
  he_action :: pyval
  he_result :: result

text \<open>
  The module's globals: the flag \<^verbatim>\<open>DRY_RUN\<close>, the three components and the
  two histories. \<open>ai_available\<close> is the analyzer's \<^verbatim>\<open>is_available()\<close>.
\<close>

record agent =
  DRY_RUN :: bool
  ai_available :: bool
  stats :: classifier_stats
  the_remediator :: remediator
  the_notifier :: notifier
  alert_history :: "alert_entry list"
  action_history :: "action_entry list"

text \<open>What \<^verbatim>\<open>process_alert\<close> returns: the dict of the normal end, or the error dict.\<close>

datatype outcome =
    Processed string pyval pyfloat bool "result option"
  | Failed string exn

definition set_entry :: "agent \<Rightarrow> nat \<Rightarrow> alert_entry \<Rightarrow> agent" where
  "set_entry ag i e = ag\<lparr>alert_history := (alert_history ag)[i := e]\<rparr>"

text \<open>
  Step 3 of \<^verbatim>\<open>process_alert\<close>: the execution and the entry in the action
  history, which is appended once \<^verbatim>\<open>execute\<close> has returned.
\<close>

definition execute_step ::
  "world \<Rightarrow> agent \<Rightarrow> string \<Rightarrow> action \<Rightarrow> alert \<Rightarrow> bool \<Rightarrow> (exn + result option) \<times> agent" where
  "execute_step w ag alert_nm act al should_auto =
     (if should_auto
      then (case execute w (the_remediator ag) act al of
              (Inl e, r') \<Rightarrow> (Inl e, ag\<lparr>the_remediator := r'\<rparr>)
            | (Inr res, r') \<Rightarrow>
                (Inr (Some res),
                 ag\<lparr>the_remediator := r',
                    action_history := action_history ag @
                      [\<lparr> he_alert = alert_nm, he_action = action_type act,
                         he_result = res \<rparr>]\<rparr>))
      else (Inr None, ag))"

text \<open>
  \<^verbatim>\<open>process_alert\<close>. The entry is appended in state \<open>processing\<close> and updated
  in place at the end, by the normal path or by the handler.
\<close>

definition process_alert :: "world \<Rightarrow> agent \<Rightarrow> alert \<Rightarrow> outcome \<times> agent" where
  "process_alert w ag al =
     (let alert_nm = (case labels al ''alertname'' of Some v \<Rightarrow> v | None \<Rightarrow> ''Unknown'');
          entry = \<lparr> ae_alert = al, ae_status = ''processing'', ae_action = None,
                    ae_error = None \<rparr>;
          i = length (alert_history ag);
          ag0 = ag\<lparr>alert_history := alert_history ag @ [entry]\<rparr>
      in case classify w (ai_available ag0) (stats ag0) al of
           (act, st1) \<Rightarrow>
      (case should_auto_execute st1 act (DRY_RUN ag0) of
           (should_auto, st2) \<Rightarrow>
      (case execute_step w (ag0\<lparr>stats := st2\<rparr>) alert_nm act al should_auto of
           (Inl e, ag3) \<Rightarrow>
             (Failed alert_nm e,
              set_entry ag3 i (entry\<lparr>ae_status := ''failed'', ae_error := Some e\<rparr>))
         | (Inr execution_result, ag3) \<Rightarrow>
             (case send_alert_notification w (the_notifier ag3) al act execution_result
                     should_auto of
                (Inl e, nt') \<Rightarrow>
                  (Failed alert_nm e,
                   set_entry (ag3\<lparr>the_notifier := nt'\<rparr>) i
                     (entry\<lparr>ae_status := ''failed'', ae_error := Some e\<rparr>))
              | (Inr sent, nt') \<Rightarrow>
                  (Processed alert_nm (action_type act) (confidence act) should_auto
                     execution_result,
                   set_entry (ag3\<lparr>the_notifier := nt'\<rparr>) i
                     (entry\<lparr>ae_status := ''completed'',
                        ae_action := Some \<lparr> as_type = action_type act,
                                            as_confidence = confidence act,
                                            as_auto_executed = should_auto,
                                            as_result = execution_result \<rparr>\<rparr>))))))"

text \<open>
  The module's initialisation: the three components are built from the environment
  variables, here the arguments, and the histories start empty.
\<close>

definition initial_agent :: "bool \<Rightarrow> string \<Rightarrow> bool \<Rightarrow> bool \<Rightarrow> agent" where
  "initial_agent dry ns ai slack =
     \<lparr> DRY_RUN = dry, ai_available = ai,
       stats = \<lparr> total_alerts = 0, rule_based_matches = 0, ai_analysis_used = 0,
                 auto_executed = 0, manual_review = 0 \<rparr>,
       the_remediator = \<lparr> namespace = ns, dry_run = dry, actions_taken = [], api_calls = [] \<rparr>,
       the_notifier = \<lparr> enabled = slack, notifications_sent = 0, notifications_failed = 0 \<rparr>,
       alert_history = [], action_history = [] \<rparr>"

section \<open>An example environment\<close>

text \<open>
  The concrete inputs of the examples below: replies of the reasoning service, the
  values that \<^verbatim>\<open>json.loads\<close> gives for them, a cluster that holds one
  deployment and accepts every call, and a webhook that answers 200.
\<close>

definition reply_empty_object :: string where
  \<open>reply_empty_object = ''{}''\<close>

definition reply_only_type :: string where
  \<open>reply_only_type = ''{"action_type": "restart"}''\<close>

definition reply_null_confidence :: string where
  \<open>reply_null_confidence = ''{"action_type": "restart", "confidence": null}''\<close>

definition reply_unknown_type :: string where
  \<open>reply_unknown_type =
     ''{"action_type": "delete_namespace", "target": "deployment", "confidence": 0.99}''\<close>

definition reply_string_increment :: string where
  \<open>reply_string_increment =
     ''{"action_type": "scale", "confidence": 0.9, "parameters": {"increment": "2"}}''\<close>

definition reply_list :: string where
  "reply_list = ''[1, 2]''"

definition reply_null_parameters :: string where
  \<open>reply_null_parameters =
     ''{"action_type": "scale", "confidence": 0.9, "parameters": null}''\<close>

definition reply_prose :: string where
  "reply_prose = ''I would restart the pod and watch it.''"

definition f_0_99 :: pyfloat where
  "f_0_99 = Fin (4458563631096791 / 4503599627370496)"

text \<open>
  \<^verbatim>\<open>json.loads\<close> on the replies above; the last line is its answer to text
  that is not JSON, and the examples consult it on \<open>reply_prose\<close> only.
\<close>

definition example_loads :: "string \<Rightarrow> exn + pyval" where
  "example_loads s =
     (if s = reply_empty_object then Inr (PDict [])
      else if s = reply_only_type then Inr (PDict [(''action_type'', PStr ''restart'')])
      else if s = reply_null_confidence
        then Inr (PDict [(''action_type'', PStr ''restart''), (''confidence'', PNone)])
      else if s = reply_unknown_type
        then Inr (PDict [(''action_type'', PStr ''delete_namespace''),
                         (''target'', PStr ''deployment''),
                         (''confidence'', PFloat f_0_99)])
      else if s = reply_string_increment
        then Inr (PDict [(''action_type'', PStr ''scale''),
                         (''confidence'', PFloat f_0_90),
                         (''parameters'', PDict [(''increment'', PStr ''2'')])])
      else if s = reply_null_parameters
        then Inr (PDict [(''action_type'', PStr ''scale''),
                         (''confidence'', PFloat f_0_90),
                         (''parameters'', PNone)])
      else if s = reply_list then Inr (PList [PInt 1, PInt 2])
      else Inl JSONDecodeError)"

definition example_deployment :: "int \<Rightarrow> deployment" where
  "example_deployment n =
     \<lparr> replicas = PInt n, template_annotations = None,
       meta_annotations = Some [(''deployment.kubernetes.io/revision'', ''3'')],
       available_replicas = PInt n, ready_replicas = PInt n, updated_replicas = PInt n \<rparr>"

text \<open>
  The environment in which the reasoning service answers \<open>reply\<close> and the cluster's
  deployment reads \<open>d\<close>. Float arithmetic and the conversion of strings to floats are
  not consulted in the examples.
\<close>

definition example_world :: "string \<Rightarrow> deployment \<Rightarrow> world" where
  "example_world reply d =
     \<lparr> json_loads = example_loads,
       float_conv = (\<lambda>v. Inl ValueError),
       int_of_str = (\<lambda>s. if s = ''3'' then Inr 3 else Inl ValueError),
       float_add = (\<lambda>x y. Inl (OtherException ''unused'')),
       float_sub = (\<lambda>x y. Inl (OtherException ''unused'')),
       strftime_now = (\<lambda>cs. ''2024-01-15T10:30:00Z''),
       chat_completion = (\<lambda>a. Inr reply),
       read_deployment = (\<lambda>cs ns n. Inr d),
       patch_deployment = (\<lambda>cs ns n b. None),
       delete_pod = (\<lambda>cs ns n g. None),
       read_pod = (\<lambda>cs ns n. Inl (ApiException 404 ''Not Found'')),
       read_pod_log = (\<lambda>cs ns n. Inl (ApiException 404 ''Not Found'')),
       list_events = (\<lambda>cs ns sel. Inr []),
       kubectl_rollout_undo = (\<lambda>cs ns n rev. Inr (0, [])),
       slack_post = (\<lambda>m. Inr 200) \<rparr>"

definition unmatched_alert :: alert where
  "unmatched_alert =
     \<lparr> labels = [''alertname'' \<mapsto> ''DiskPressure'', ''severity'' \<mapsto> ''warning'',
                 ''service'' \<mapsto> ''web''],
       annotations = [''description'' \<mapsto> ''Disk usage above 90 percent''] \<rparr>"

definition too_few_replicas_alert :: alert where
  "too_few_replicas_alert =
     \<lparr> labels = [''alertname'' \<mapsto> ''TooFewReplicas'', ''service'' \<mapsto> ''web''],
       annotations = [''description'' \<mapsto> ''Deployment web has 2 of 5 pods''] \<rparr>"

definition service_down_alert :: alert where
  "service_down_alert =
     \<lparr> labels = [''alertname'' \<mapsto> ''ServiceDown'', ''service'' \<mapsto> ''web''],
       annotations = [''description'' \<mapsto> ''Pods of web are in a crash loop''] \<rparr>"

text \<open>The same environment with a reasoning service that times out.\<close>

definition timeout_world :: "deployment \<Rightarrow> world" where
  "timeout_world d =
     (example_world [] d)\<lparr>chat_completion := (\<lambda>a. Inl (OtherException ''timeout''))\<rparr>"

text \<open>An executor as the module builds it, with the given dry-run flag.\<close>

definition example_remediator :: "bool \<Rightarrow> remediator" where
  "example_remediator dry =
     \<lparr> namespace = ''helix-dev'', dry_run = dry, actions_taken = [], api_calls = [] \<rparr>"

text \<open>Scale actions as the reasoning service can recommend them.\<close>

definition scale_down_action :: action where
  "scale_down_action =
     \<lparr> action_type = PStr ''scale'', target = PStr ''deployment'',
       parameters = PDict [(''direction'', PStr ''down''), (''increment'', PInt 5)],
       confidence = f_0_90,
       reason = [Lit ''AI Analysis: '', Fmt (PStr ''Load has dropped'')] \<rparr>"

definition scale_down_to_spec_action :: action where
  "scale_down_to_spec_action =
     \<lparr> action_type = PStr ''scale'', target = PStr ''deployment'',
       parameters = PDict [(''direction'', PStr ''down''), (''to_spec'', PBool True)],
       confidence = f_0_90,
       reason = [Lit ''AI Analysis: '', Fmt (PStr ''Load has dropped'')] \<rparr>"

text \<open>The action that \<^verbatim>\<open>_parse_ai_response\<close> builds from \<open>reply_string_increment\<close>.\<close>

definition string_increment_action :: action where
  "string_increment_action =
     \<lparr> action_type = PStr ''scale'', target = PStr ''pod'',
       parameters = PDict [(''increment'', PStr ''2'')],
       confidence = f_0_90,
       reason = [Lit ''AI Analysis: '', Fmt (PStr ''No reason provided'')] \<rparr>"


text \<open>A deployment that specifies five replicas, two of which are available.\<close>

definition lagging_deployment :: deployment where
  "lagging_deployment =
     (example_deployment 5)\<lparr>available_replicas := PInt 2, ready_replicas := PInt 2\<rparr>"

section \<open>Predicates of the properties\<close>

text \<open>\<^verbatim>\<open>x >= 1\<close> on numbers: the floor of a replica count.\<close>

fun ge_one :: "pyval \<Rightarrow> bool" where
  "ge_one (PBool b) = b"
| "ge_one (PInt i) = (1 \<le> i)"
| "ge_one (PFloat f) = float_ge f (Fin 1)"
| "ge_one _ = False"

text \<open>The service that \<^verbatim>\<open>execute\<close> reads from the alert's labels.\<close>

definition service_of :: "alert \<Rightarrow> string" where
  "service_of al = (case labels al ''service'' of Some v \<Rightarrow> v | None \<Rightarrow> ''unknown'')"

section \<open>The autonomy gate\<close>

text \<open>
  Claim C1. \<^verbatim>\<open>should_auto_execute\<close> answers false whenever the dry-run flag is
  set, whatever the action and its confidence; it answers false for every action of
  type \<^verbatim>\<open>investigate\<close>, whatever its confidence (1.0 included) and the flag;
  for any other action, without dry run, it answers true exactly when the confidence
  is \<^verbatim>\<open>>= 0.85\<close>, and a confidence of exactly 0.85 gives true.
\<close>

theorem should_auto_execute_decision:
  "fst (should_auto_execute st act True) = False
   \<and> fst (should_auto_execute st (act\<lparr>action_type := PStr ''investigate''\<rparr>) dry) = False
   \<and> (action_type act \<noteq> PStr ''investigate'' \<longrightarrow>
        fst (should_auto_execute st act False) = float_ge (confidence act) f_0_85
        \<and> fst (should_auto_execute st (act\<lparr>confidence := f_0_85\<rparr>) False) = True)"
  by (simp add: should_auto_execute_def get_confidence_threshold_def f_0_85_def Let_def)

text \<open>
  At the rule table: the action of \<open>high_cpu\<close> (a scale, confidence 0.85) passes the
  gate, the action of \<open>high_memory_usage\<close> (a scale, confidence 0.80) does not.
\<close>

theorem should_auto_execute_decision_witness:
  "action_type (rule_action (load_patterns ! 5)) \<noteq> PStr ''investigate''
   \<and> confidence (rule_action (load_patterns ! 5)) = f_0_85
   \<and> fst (should_auto_execute (stats (initial_agent False ''helix-dev'' False False))
             (rule_action (load_patterns ! 5)) False) = True
   \<and> fst (should_auto_execute (stats (initial_agent False ''helix-dev'' False False))
             (rule_action (load_patterns ! 4)) False) = False"
  using should_auto_execute_decision
          [of "stats (initial_agent False ''helix-dev'' False False)"
              "rule_action (load_patterns ! 5)" False]
        should_auto_execute_decision
          [of "stats (initial_agent False ''helix-dev'' False False)"
              "rule_action (load_patterns ! 4)" False]
  by (simp add: load_patterns_def f_0_85_def f_0_80_def)

section \<open>The rule classifier\<close>

lemma classify_rules_at:
  "i < length rs \<Longrightarrow> alert_name (rs ! i) = an \<Longrightarrow>
   (\<forall>j<i. alert_name (rs ! j) \<noteq> an \<and> \<not> re_search (pattern (rs ! j)) d) \<Longrightarrow>
   classify_rules rs an d = Some (rule_action (rs ! i))"
proof (induction rs arbitrary: i)
  case Nil
  then show ?case by simp
next
  case (Cons r rs)
  show ?case
  proof (cases i)
    case 0
    with Cons.prems show ?thesis by simp
  next
    case (Suc k)
    from Cons.prems(3) Suc have head: "alert_name r \<noteq> an" "\<not> re_search (pattern r) d"
      by force+
    have "classify_rules rs an d = Some (rule_action (rs ! k))"
    proof (rule Cons.IH)
      show "k < length rs" using Cons.prems(1) Suc by simp
      show "alert_name (rs ! k) = an" using Cons.prems(2) Suc by simp
      show "\<forall>j<k. alert_name (rs ! j) \<noteq> an \<and> \<not> re_search (pattern (rs ! j)) d"
      proof (intro allI impI)
        fix j assume "j < k"
        then have "Suc j < i" using Suc by simp
        with Cons.prems(3) show "alert_name (rs ! j) \<noteq> an \<and> \<not> re_search (pattern (rs ! j)) d"
          by force
      qed
    qed
    with head Suc show ?thesis by simp
  qed
qed

lemma distinct_alert_names: "distinct (map alert_name load_patterns)"
  by (simp add: load_patterns_def)

lemma classify_rules_first:
  "i < length rs \<Longrightarrow> alert_name (rs ! i) = an \<or> re_search (pattern (rs ! i)) d \<Longrightarrow>
   (\<forall>j<i. alert_name (rs ! j) \<noteq> an \<and> \<not> re_search (pattern (rs ! j)) d) \<Longrightarrow>
   classify_rules rs an d = Some (rule_action (rs ! i))"
proof (induction rs arbitrary: i)
  case Nil
  then show ?case by simp
next
  case (Cons r rs)
  show ?case
  proof (cases i)
    case 0
    with Cons.prems show ?thesis by auto
  next
    case (Suc k)
    from Cons.prems(3) Suc have head: "alert_name r \<noteq> an" "\<not> re_search (pattern r) d"
      by force+
    have "classify_rules rs an d = Some (rule_action (rs ! k))"
    proof (rule Cons.IH)
      show "k < length rs" using Cons.prems(1) Suc by simp
      show "alert_name (rs ! k) = an \<or> re_search (pattern (rs ! k)) d"
        using Cons.prems(2) Suc by simp
      show "\<forall>j<k. alert_name (rs ! j) \<noteq> an \<and> \<not> re_search (pattern (rs ! j)) d"
      proof (intro allI impI)
        fix j assume "j < k"
        then have "Suc j < i" using Suc by simp
        with Cons.prems(3) show "alert_name (rs ! j) \<noteq> an \<and> \<not> re_search (pattern (rs ! j)) d"
          by force
      qed
    qed
    with head Suc show ?thesis by simp
  qed
qed

lemma classify_name_first:
  assumes "i < length load_patterns"
    and "labels al ''alertname'' = Some (alert_name (load_patterns ! i))"
    and "\<forall>j<i. \<not> re_search (pattern (load_patterns ! j))
                  (lower (case annotations al ''description'' of Some v \<Rightarrow> v | None \<Rightarrow> ''''))"
  shows "pm_classify al = Some (rule_action (load_patterns ! i))"
proof -
  let ?d = "lower (case annotations al ''description'' of Some v \<Rightarrow> v | None \<Rightarrow> '''')"
  let ?an = "alert_name (load_patterns ! i)"
  have earlier: "\<forall>j<i. alert_name (load_patterns ! j) \<noteq> ?an
                        \<and> \<not> re_search (pattern (load_patterns ! j)) ?d"
  proof (intro allI impI conjI)
    fix j assume j: "j < i"
    then have lt: "j < length load_patterns" and ne: "j \<noteq> i" using assms(1) by simp_all
    have "(map alert_name load_patterns ! j = map alert_name load_patterns ! i) = (j = i)"
      by (rule nth_eq_iff_index_eq [OF distinct_alert_names]) (use lt assms(1) in simp_all)
    then show "alert_name (load_patterns ! j) \<noteq> ?an"
      using lt ne assms(1) by simp
    show "\<not> re_search (pattern (load_patterns ! j)) ?d" using assms(3) j by blast
  qed
  have "classify_rules load_patterns ?an ?d = Some (rule_action (load_patterns ! i))"
    by (rule classify_rules_at [OF assms(1) refl earlier])
  then show ?thesis using assms(2) by (simp add: pm_classify_def)
qed

text \<open>
  Claim C3, as amended. An alert whose \<^verbatim>\<open>alertname\<close> label equals the
  \<^verbatim>\<open>alert_name\<close> of a rule of the table gets that rule's action, whether or
  not its description matches that rule's pattern or the pattern of a later rule,
  provided that its lower-cased description matches the pattern of no rule listed
  before that one. In general the action returned is that of the first rule, in the
  order of the table, whose name equals the alert's name or whose pattern matches the
  description: an earlier rule that fires on the description wins over a later rule
  that fires on the name.
\<close>

theorem classify_name_match:
  "(i < length load_patterns
    \<and> labels al ''alertname'' = Some (alert_name (load_patterns ! i))
    \<and> (\<forall>j<i. \<not> re_search (pattern (load_patterns ! j))
                  (lower (case annotations al ''description'' of Some v \<Rightarrow> v | None \<Rightarrow> '''')))
    \<longrightarrow> pm_classify al = Some (rule_action (load_patterns ! i)))
   \<and> (k < length load_patterns
       \<and> (alert_name (load_patterns ! k) =
             (case labels al ''alertname'' of Some v \<Rightarrow> v | None \<Rightarrow> '''')
           \<or> re_search (pattern (load_patterns ! k))
                (lower (case annotations al ''description'' of Some v \<Rightarrow> v | None \<Rightarrow> '''')))
       \<and> (\<forall>j<k. alert_name (load_patterns ! j) \<noteq>
                    (case labels al ''alertname'' of Some v \<Rightarrow> v | None \<Rightarrow> '''')
                  \<and> \<not> re_search (pattern (load_patterns ! j))
                        (lower (case annotations al ''description'' of
                                  Some v \<Rightarrow> v | None \<Rightarrow> '''')))
    \<longrightarrow> pm_classify al = Some (rule_action (load_patterns ! k)))"
proof (intro conjI impI)
  assume "i < length load_patterns
    \<and> labels al ''alertname'' = Some (alert_name (load_patterns ! i))
    \<and> (\<forall>j<i. \<not> re_search (pattern (load_patterns ! j))
                  (lower (case annotations al ''description'' of Some v \<Rightarrow> v | None \<Rightarrow> '''')))"
  then show "pm_classify al = Some (rule_action (load_patterns ! i))"
    using classify_name_first [of i al] by blast
next
  assume h: "k < length load_patterns
       \<and> (alert_name (load_patterns ! k) =
             (case labels al ''alertname'' of Some v \<Rightarrow> v | None \<Rightarrow> '''')
           \<or> re_search (pattern (load_patterns ! k))
                (lower (case annotations al ''description'' of Some v \<Rightarrow> v | None \<Rightarrow> '''')))
       \<and> (\<forall>j<k. alert_name (load_patterns ! j) \<noteq>
                    (case labels al ''alertname'' of Some v \<Rightarrow> v | None \<Rightarrow> '''')
                  \<and> \<not> re_search (pattern (load_patterns ! j))
                        (lower (case annotations al ''description'' of
                                  Some v \<Rightarrow> v | None \<Rightarrow> '''')))"
  have "classify_rules load_patterns
          (case labels al ''alertname'' of Some v \<Rightarrow> v | None \<Rightarrow> '''')
          (lower (case annotations al ''description'' of Some v \<Rightarrow> v | None \<Rightarrow> ''''))
        = Some (rule_action (load_patterns ! k))"
    by (rule classify_rules_first) (use h in blast)+
  then show "pm_classify al = Some (rule_action (load_patterns ! k))"
    by (simp add: pm_classify_def)
qed

text \<open>
  An alert named \<^verbatim>\<open>ServiceDown\<close> whose description matches no pattern gets the
  action of the second rule, a restart of the deployment; \<open>service_down_alert\<close>, whose
  description mentions a crash loop, gets the action of the first rule, a restart of
  the pod.
\<close>

theorem classify_name_match_witness:
  "pm_classify \<lparr> labels = [''alertname'' \<mapsto> ''ServiceDown''],
                  annotations = [''description'' \<mapsto> ''Everything looks fine''] \<rparr>
     = Some (rule_action (load_patterns ! 1))
   \<and> action_type (rule_action (load_patterns ! 1)) = PStr ''restart''
   \<and> target (rule_action (load_patterns ! 1)) = PStr ''deployment''
   \<and> pm_classify service_down_alert = Some (rule_action (load_patterns ! 0))
   \<and> target (rule_action (load_patterns ! 0)) = PStr ''pod''"
proof -
  let ?al = "\<lparr> labels = [''alertname'' \<mapsto> ''ServiceDown''],
                annotations = [''description'' \<mapsto> ''Everything looks fine''] \<rparr>"
  have a: "(1::nat) < length load_patterns" by (simp add: load_patterns_def)
  have b: "labels ?al ''alertname'' = Some (alert_name (load_patterns ! 1))"
    by (simp add: load_patterns_def)
  have "\<not> re_search (pattern (load_patterns ! 0)) (lower ''Everything looks fine'')"
    by code_simp
  then have c: "\<forall>j<(1::nat). \<not> re_search (pattern (load_patterns ! j))
                  (lower (case annotations ?al ''description'' of Some v \<Rightarrow> v | None \<Rightarrow> ''''))"
    by simp
  have first: "pm_classify ?al = Some (rule_action (load_patterns ! 1))"
    using classify_name_match [where i = 1 and al = ?al] a b c by blast
  have z: "(0::nat) < length load_patterns" by (simp add: load_patterns_def)
  have "re_search (pattern (load_patterns ! 0))
          (lower (case annotations service_down_alert ''description'' of
                    Some v \<Rightarrow> v | None \<Rightarrow> ''''))"
    by code_simp
  then have second: "pm_classify service_down_alert = Some (rule_action (load_patterns ! 0))"
    using classify_name_match [where k = 0 and al = service_down_alert] z by blast
  from first second show ?thesis by (simp add: load_patterns_def)
qed

text \<open>
  The claim as stated fails: the alert \<open>service_down_alert\<close> carries the name of the
  second rule, its description mentions a crash loop, and the classifier returns the
  action of the first rule, which is another action.
\<close>

theorem classify_name_match_counterexample:
  "labels service_down_alert ''alertname'' = Some (alert_name (load_patterns ! 1))
   \<and> pm_classify service_down_alert = Some (rule_action (load_patterns ! 0))
   \<and> rule_action (load_patterns ! 0) \<noteq> rule_action (load_patterns ! 1)"
  by code_simp

section \<open>The reasoner's reply\<close>

lemma split_fence_nonempty: "split_fence acc s \<noteq> []"
  by (induction acc s rule: split_fence.induct) auto

lemma extract_json_total: "\<exists>t. extract_json raw = Inr t"
proof (cases "startswith (strip raw) fence")
  case False
  then show ?thesis by (simp add: extract_json_def exn_bind_def)
next
  case True
  have "length fence = 3" by (simp add: fence_def)
  with True have tk: "take 3 (strip raw) = fence" by (simp only: startswith_def)
  then obtain c cs where s: "strip raw = c # cs" by (cases "strip raw") (auto simp: fence_def)
  obtain x xs where r: "split_fence [] (drop 3 (c # cs)) = x # xs"
    using split_fence_nonempty [of "[]" "drop 3 (c # cs)"] by (cases "split_fence [] (drop 3 (c # cs))") auto
  have "split_fence [] (strip raw) = [] # x # xs"
    using tk s r by simp
  then show ?thesis using True by (simp add: extract_json_def exn_bind_def index1_def)
qed

lemma parse_ai_response_object:
  assumes "extract_json raw = Inr t" and "json_loads w t = Inr (PDict kvs)"
    and "py_float w (case map_of kvs ''confidence'' of Some v \<Rightarrow> v | None \<Rightarrow> PFloat f_0_5) = Inr c"
  shows "parse_ai_response w raw =
           \<lparr> action_type = (case map_of kvs ''action_type'' of Some v \<Rightarrow> v | None \<Rightarrow> PStr ''investigate''),
             target = (case map_of kvs ''target'' of Some v \<Rightarrow> v | None \<Rightarrow> PStr ''pod''),
             parameters = (case map_of kvs ''parameters'' of Some v \<Rightarrow> v | None \<Rightarrow> PDict []),
             confidence = c,
             reason = [Lit ''AI Analysis: '',
                       Fmt (case map_of kvs ''reason'' of Some v \<Rightarrow> v | None \<Rightarrow> PStr ''No reason provided'')] \<rparr>"
  using assms by (simp add: parse_ai_response_def parse_body_def build_action_def exn_bind_def)

lemma parse_ai_response_decode_error:
  assumes "extract_json raw = Inr t" and "json_loads w t = Inl JSONDecodeError"
  shows "parse_ai_response w raw =
           \<lparr> action_type = PStr ''investigate'', target = PStr ''pod'',
             parameters = PDict [(''ai_response'', PStr (take 500 raw))],
             confidence = f_0_3,
             reason = [Lit ''AI analysis inconclusive. Response: '',
                       Fmt (PStr (take 200 raw)), Lit ''...''] \<rparr>"
  using assms by (simp add: parse_ai_response_def parse_body_def exn_bind_def)

lemma parse_ai_response_other_error:
  assumes "parse_body w raw = Inl e" and "e \<noteq> JSONDecodeError"
  shows "parse_ai_response w raw =
           \<lparr> action_type = PStr ''investigate'', target = PStr ''pod'',
             parameters = PDict [], confidence = f_0_0,
             reason = [Lit ''AI analysis error: '', ExnText e] \<rparr>"
  using assms by (cases e) (simp_all add: parse_ai_response_def)

lemma analyze_alert_exception:
  "chat_completion w al = Inl e \<Longrightarrow> analyze_alert w available al = None"
  by (simp add: analyze_alert_def exn_bind_def)

lemma classify_fallback:
  assumes "pm_classify al = None" and "analyze_alert w available al = None"
  shows "fst (classify w available st al) = manual_investigation"
  using assms by (cases available) (simp_all add: classify_def Let_def)


lemma unknown_action_type:
  assumes "action_type act \<noteq> PStr ''restart''" and "action_type act \<noteq> PStr ''scale''"
    and "action_type act \<noteq> PStr ''rollback''" and "action_type act \<noteq> PStr ''investigate''"
  shows "execute w r act al =
           (Inr [(''status'', RVal (PStr ''error'')),
                 (''message'', RText [Lit ''Unknown action type: '', Fmt (action_type act)])], r)"
  using assms by (simp add: execute_def)

lemma extract_prose: "extract_json reply_prose = Inr reply_prose"
  by code_simp

lemma extract_only_type: "extract_json reply_only_type = Inr reply_only_type"
  by code_simp

lemma extract_null_confidence: "extract_json reply_null_confidence = Inr reply_null_confidence"
  by code_simp

lemma extract_unknown_type: "extract_json reply_unknown_type = Inr reply_unknown_type"
  by code_simp

lemma loads_prose: "example_loads reply_prose = Inl JSONDecodeError"
  by code_simp

lemma loads_only_type:
  "example_loads reply_only_type = Inr (PDict [(''action_type'', PStr ''restart'')])"
  by code_simp

lemma loads_null_confidence:
  "example_loads reply_null_confidence =
     Inr (PDict [(''action_type'', PStr ''restart''), (''confidence'', PNone)])"
  by code_simp

lemma loads_unknown_type:
  "example_loads reply_unknown_type =
     Inr (PDict [(''action_type'', PStr ''delete_namespace''), (''target'', PStr ''deployment''),
                 (''confidence'', PFloat f_0_99)])"
  by code_simp

lemma build_action_not_object:
  assumes "\<forall>kvs. v \<noteq> PDict kvs"
  shows "build_action w v = Inl AttributeError"
  using assms by (cases v) (simp_all add: build_action_def exn_bind_def)

lemma parse_ai_response_not_object:
  assumes "extract_json raw = Inr t" and "json_loads w t = Inr v"
    and "\<forall>kvs. v \<noteq> PDict kvs"
  shows "parse_ai_response w raw =
           \<lparr> action_type = PStr ''investigate'', target = PStr ''pod'',
             parameters = PDict [], confidence = f_0_0,
             reason = [Lit ''AI analysis error: '', ExnText AttributeError] \<rparr>"
proof -
  have "parse_body w raw = Inl AttributeError"
    using assms(1,2) build_action_not_object [OF assms(3)]
    by (simp add: parse_body_def exn_bind_def)
  then show ?thesis by (simp add: parse_ai_response_other_error)
qed

lemma parse_body_bad_confidence:
  assumes "extract_json raw = Inr t" and "json_loads w t = Inr (PDict kvs)"
    and "py_float w (case map_of kvs ''confidence'' of Some v \<Rightarrow> v | None \<Rightarrow> PFloat f_0_5) = Inl e"
  shows "parse_body w raw = Inl e"
  using assms by (simp add: parse_body_def build_action_def exn_bind_def)

lemma parse_failure_investigate:
  assumes "parse_body w raw = Inl e"
  shows "action_type (parse_ai_response w raw) = PStr ''investigate''"
  using assms by (cases e) (simp_all add: parse_ai_response_def)

lemma extract_list: "extract_json reply_list = Inr reply_list"
  by code_simp

lemma loads_list: "example_loads reply_list = Inr (PList [PInt 1, PInt 2])"
  by code_simp




text \<open>
  Claim C5, as amended. When the reply is not valid JSON (\<^verbatim>\<open>json.loads\<close> raises
  \<^verbatim>\<open>JSONDecodeError\<close>), parsing yields an investigate action with confidence 0.3
  whose reason holds the first 200 characters of the raw reply. A reply that is a JSON
  object without some of the keys is not treated as malformed: each key that is
  present gives its value, each missing key takes its default (action type
  \<^verbatim>\<open>investigate\<close>, target \<^verbatim>\<open>pod\<close>, parameters \<^verbatim>\<open>{}\<close>, confidence 0.5,
  reason \<^verbatim>\<open>No reason provided\<close>), provided that the confidence converts to a
  float. Any other exception of the parsing yields an investigate action with
  confidence 0.0 whose reason holds the exception's text; this is what a reply that
  parses to something other than an object gets, and a reply whose confidence does not
  convert. An exception of the reasoning service makes \<^verbatim>\<open>analyze_alert\<close> return
  no action, which \<^verbatim>\<open>classify\<close> turns into the investigate action with
  confidence 0.0. In each case a value is returned: the text handed to
  \<^verbatim>\<open>json.loads\<close> is always defined, and no exception leaves the component.
\<close>

theorem malformed_reply_handling:
  "(\<exists>t. extract_json raw = Inr t)
   \<and> (extract_json raw = Inr t \<and> json_loads w t = Inl JSONDecodeError \<longrightarrow>
      parse_ai_response w raw =
        \<lparr> action_type = PStr ''investigate'', target = PStr ''pod'',
          parameters = PDict [(''ai_response'', PStr (take 500 raw))],
          confidence = f_0_3,
          reason = [Lit ''AI analysis inconclusive. Response: '',
                    Fmt (PStr (take 200 raw)), Lit ''...''] \<rparr>)
   \<and> (extract_json raw = Inr t \<and> json_loads w t = Inr (PDict kvs)
        \<and> py_float w (case map_of kvs ''confidence'' of
                         Some v \<Rightarrow> v | None \<Rightarrow> PFloat f_0_5) = Inr c \<longrightarrow>
      parse_ai_response w raw =
        \<lparr> action_type = (case map_of kvs ''action_type'' of
                           Some v \<Rightarrow> v | None \<Rightarrow> PStr ''investigate''),
          target = (case map_of kvs ''target'' of Some v \<Rightarrow> v | None \<Rightarrow> PStr ''pod''),
          parameters = (case map_of kvs ''parameters'' of Some v \<Rightarrow> v | None \<Rightarrow> PDict []),
          confidence = c,
          reason = [Lit ''AI Analysis: '',
                    Fmt (case map_of kvs ''reason'' of
                           Some v \<Rightarrow> v | None \<Rightarrow> PStr ''No reason provided'')] \<rparr>)
   \<and> (extract_json raw = Inr t \<and> json_loads w t = Inr (PDict kvs)
        \<and> map_of kvs ''confidence'' = None \<longrightarrow>
      parse_ai_response w raw =
        \<lparr> action_type = (case map_of kvs ''action_type'' of
                           Some v \<Rightarrow> v | None \<Rightarrow> PStr ''investigate''),
          target = (case map_of kvs ''target'' of Some v \<Rightarrow> v | None \<Rightarrow> PStr ''pod''),
          parameters = (case map_of kvs ''parameters'' of Some v \<Rightarrow> v | None \<Rightarrow> PDict []),
          confidence = f_0_5,
          reason = [Lit ''AI Analysis: '',
                    Fmt (case map_of kvs ''reason'' of
                           Some v \<Rightarrow> v | None \<Rightarrow> PStr ''No reason provided'')] \<rparr>)
   \<and> (parse_body w raw = Inl e \<and> e \<noteq> JSONDecodeError \<longrightarrow>
      parse_ai_response w raw =
        \<lparr> action_type = PStr ''investigate'', target = PStr ''pod'',
          parameters = PDict [], confidence = f_0_0,
          reason = [Lit ''AI analysis error: '', ExnText e] \<rparr>)
   \<and> (extract_json raw = Inr t \<and> json_loads w t = Inr v \<and> (\<forall>kvs. v \<noteq> PDict kvs) \<longrightarrow>
      parse_ai_response w raw =
        \<lparr> action_type = PStr ''investigate'', target = PStr ''pod'',
          parameters = PDict [], confidence = f_0_0,
          reason = [Lit ''AI analysis error: '', ExnText AttributeError] \<rparr>)
   \<and> (extract_json raw = Inr t \<and> json_loads w t = Inr (PDict kvs)
        \<and> py_float w (case map_of kvs ''confidence'' of
                         Some v \<Rightarrow> v | None \<Rightarrow> PFloat f_0_5) = Inl e
        \<and> e \<noteq> JSONDecodeError \<longrightarrow>
      parse_ai_response w raw =
        \<lparr> action_type = PStr ''investigate'', target = PStr ''pod'',
          parameters = PDict [], confidence = f_0_0,
          reason = [Lit ''AI analysis error: '', ExnText e] \<rparr>)
   \<and> (chat_completion w al = Inl e \<longrightarrow>
      analyze_alert w True al = None
      \<and> (pm_classify al = None \<longrightarrow>
           action_type (fst (classify w True st al)) = PStr ''investigate''
           \<and> confidence (fst (classify w True st al)) = f_0_0))"
proof -
  have p0: "\<exists>t. extract_json raw = Inr t" by (rule extract_json_total)
  have p1: "extract_json raw = Inr t \<and> json_loads w t = Inl JSONDecodeError \<longrightarrow>
      parse_ai_response w raw =
        \<lparr> action_type = PStr ''investigate'', target = PStr ''pod'',
          parameters = PDict [(''ai_response'', PStr (take 500 raw))],
          confidence = f_0_3,
          reason = [Lit ''AI analysis inconclusive. Response: '',
                    Fmt (PStr (take 200 raw)), Lit ''...''] \<rparr>"
    by (simp add: parse_ai_response_decode_error)
  have p2: "extract_json raw = Inr t \<and> json_loads w t = Inr (PDict kvs)
        \<and> py_float w (case map_of kvs ''confidence'' of
                         Some v \<Rightarrow> v | None \<Rightarrow> PFloat f_0_5) = Inr c \<longrightarrow>
      parse_ai_response w raw =
        \<lparr> action_type = (case map_of kvs ''action_type'' of
                           Some v \<Rightarrow> v | None \<Rightarrow> PStr ''investigate''),
          target = (case map_of kvs ''target'' of Some v \<Rightarrow> v | None \<Rightarrow> PStr ''pod''),
          parameters = (case map_of kvs ''parameters'' of Some v \<Rightarrow> v | None \<Rightarrow> PDict []),
          confidence = c,
          reason = [Lit ''AI Analysis: '',
                    Fmt (case map_of kvs ''reason'' of
                           Some v \<Rightarrow> v | None \<Rightarrow> PStr ''No reason provided'')] \<rparr>"
    using parse_ai_response_object [of raw t w kvs c] by blast
  have p3: "extract_json raw = Inr t \<and> json_loads w t = Inr (PDict kvs)
        \<and> map_of kvs ''confidence'' = None \<longrightarrow>
      parse_ai_response w raw =
        \<lparr> action_type = (case map_of kvs ''action_type'' of
                           Some v \<Rightarrow> v | None \<Rightarrow> PStr ''investigate''),
          target = (case map_of kvs ''target'' of Some v \<Rightarrow> v | None \<Rightarrow> PStr ''pod''),
          parameters = (case map_of kvs ''parameters'' of Some v \<Rightarrow> v | None \<Rightarrow> PDict []),
          confidence = f_0_5,
          reason = [Lit ''AI Analysis: '',
                    Fmt (case map_of kvs ''reason'' of
                           Some v \<Rightarrow> v | None \<Rightarrow> PStr ''No reason provided'')] \<rparr>"
  proof
    assume h: "extract_json raw = Inr t \<and> json_loads w t = Inr (PDict kvs)
        \<and> map_of kvs ''confidence'' = None"
    then have "py_float w (case map_of kvs ''confidence'' of
                             Some v \<Rightarrow> v | None \<Rightarrow> PFloat f_0_5) = Inr f_0_5"
      by simp
    with h show "parse_ai_response w raw =
        \<lparr> action_type = (case map_of kvs ''action_type'' of
                           Some v \<Rightarrow> v | None \<Rightarrow> PStr ''investigate''),
          target = (case map_of kvs ''target'' of Some v \<Rightarrow> v | None \<Rightarrow> PStr ''pod''),
          parameters = (case map_of kvs ''parameters'' of Some v \<Rightarrow> v | None \<Rightarrow> PDict []),
          confidence = f_0_5,
          reason = [Lit ''AI Analysis: '',
                    Fmt (case map_of kvs ''reason'' of
                           Some v \<Rightarrow> v | None \<Rightarrow> PStr ''No reason provided'')] \<rparr>"
      using parse_ai_response_object [of raw t w kvs f_0_5] by blast
  qed
  have p4: "parse_body w raw = Inl e \<and> e \<noteq> JSONDecodeError \<longrightarrow>
      parse_ai_response w raw =
        \<lparr> action_type = PStr ''investigate'', target = PStr ''pod'',
          parameters = PDict [], confidence = f_0_0,
          reason = [Lit ''AI analysis error: '', ExnText e] \<rparr>"
    by (simp add: parse_ai_response_other_error)
  have p5: "extract_json raw = Inr t \<and> json_loads w t = Inr v \<and> (\<forall>kvs. v \<noteq> PDict kvs) \<longrightarrow>
      parse_ai_response w raw =
        \<lparr> action_type = PStr ''investigate'', target = PStr ''pod'',
          parameters = PDict [], confidence = f_0_0,
          reason = [Lit ''AI analysis error: '', ExnText AttributeError] \<rparr>"
    using parse_ai_response_not_object [of raw t w v] by blast
  have p6: "extract_json raw = Inr t \<and> json_loads w t = Inr (PDict kvs)
        \<and> py_float w (case map_of kvs ''confidence'' of
                         Some v \<Rightarrow> v | None \<Rightarrow> PFloat f_0_5) = Inl e
        \<and> e \<noteq> JSONDecodeError \<longrightarrow>
      parse_ai_response w raw =
        \<lparr> action_type = PStr ''investigate'', target = PStr ''pod'',
          parameters = PDict [], confidence = f_0_0,
          reason = [Lit ''AI analysis error: '', ExnText e] \<rparr>"
    using parse_body_bad_confidence [of raw t w kvs e] parse_ai_response_other_error [of w raw e]
    by blast
  have p7: "chat_completion w al = Inl e \<longrightarrow>
      analyze_alert w True al = None
      \<and> (pm_classify al = None \<longrightarrow>
           action_type (fst (classify w True st al)) = PStr ''investigate''
           \<and> confidence (fst (classify w True st al)) = f_0_0)"
  proof (intro impI conjI)
    assume c: "chat_completion w al = Inl e"
    then show "analyze_alert w True al = None" by (rule analyze_alert_exception)
    assume n: "pm_classify al = None"
    have "fst (classify w True st al) = manual_investigation"
      using n analyze_alert_exception [OF c] by (rule classify_fallback)
    then show "action_type (fst (classify w True st al)) = PStr ''investigate''"
      and "confidence (fst (classify w True st al)) = f_0_0"
      by (simp_all add: manual_investigation_def)
  qed
  from p0 p1 p2 p3 p4 p5 p6 p7 show ?thesis by (intro conjI)
qed

lemma example_world_loads [simp]: "json_loads (example_world reply d) = example_loads"
  by (simp add: example_world_def)

lemma timeout_world_chat:
  "chat_completion (timeout_world d) al = Inl (OtherException ''timeout'')"
  by (simp add: timeout_world_def)

lemma unmatched_alert_no_rule: "pm_classify unmatched_alert = None"
  by code_simp

text \<open>
  The cases at concrete replies: prose; an object with a confidence; an object with
  the action type only; an object whose confidence is \<^verbatim>\<open>null\<close>; a list; and a
  service that times out.
\<close>

theorem malformed_reply_handling_witness:
  "parse_ai_response (example_world reply_prose (example_deployment 2)) reply_prose =
     \<lparr> action_type = PStr ''investigate'', target = PStr ''pod'',
       parameters = PDict [(''ai_response'', PStr reply_prose)],
       confidence = f_0_3,
       reason = [Lit ''AI analysis inconclusive. Response: '', Fmt (PStr reply_prose),
                 Lit ''...''] \<rparr>
   \<and> parse_ai_response (example_world reply_unknown_type (example_deployment 2))
        reply_unknown_type =
        \<lparr> action_type = PStr ''delete_namespace'', target = PStr ''deployment'',
          parameters = PDict [], confidence = f_0_99,
          reason = [Lit ''AI Analysis: '', Fmt (PStr ''No reason provided'')] \<rparr>
   \<and> parse_ai_response (example_world reply_only_type (example_deployment 2))
        reply_only_type =
        \<lparr> action_type = PStr ''restart'', target = PStr ''pod'',
          parameters = PDict [], confidence = f_0_5,
          reason = [Lit ''AI Analysis: '', Fmt (PStr ''No reason provided'')] \<rparr>
   \<and> parse_ai_response (example_world reply_null_confidence (example_deployment 2))
        reply_null_confidence =
        \<lparr> action_type = PStr ''investigate'', target = PStr ''pod'',
          parameters = PDict [], confidence = f_0_0,
          reason = [Lit ''AI analysis error: '', ExnText TypeError] \<rparr>
   \<and> parse_ai_response (example_world reply_list (example_deployment 2)) reply_list =
        \<lparr> action_type = PStr ''investigate'', target = PStr ''pod'',
          parameters = PDict [], confidence = f_0_0,
          reason = [Lit ''AI analysis error: '', ExnText AttributeError] \<rparr>
   \<and> analyze_alert (timeout_world (example_deployment 2)) True unmatched_alert = None
   \<and> action_type (fst (classify (timeout_world (example_deployment 2)) True
                          (stats (initial_agent False ''helix-dev'' True False))
                          unmatched_alert)) = PStr ''investigate''
   \<and> confidence (fst (classify (timeout_world (example_deployment 2)) True
                         (stats (initial_agent False ''helix-dev'' True False))
                         unmatched_alert)) = f_0_0"
proof -
  let ?d = "example_deployment 2"
  let ?st = "stats (initial_agent False ''helix-dev'' True False)"
  have len: "take 500 reply_prose = reply_prose" "take 200 reply_prose = reply_prose"
    by (simp_all add: reply_prose_def)
  have a: "parse_ai_response (example_world reply_prose ?d) reply_prose =
     \<lparr> action_type = PStr ''investigate'', target = PStr ''pod'',
       parameters = PDict [(''ai_response'', PStr reply_prose)],
       confidence = f_0_3,
       reason = [Lit ''AI analysis inconclusive. Response: '', Fmt (PStr reply_prose),
                 Lit ''...''] \<rparr>"
    using malformed_reply_handling
            [where raw = reply_prose and t = reply_prose
               and w = "example_world reply_prose ?d"]
          extract_prose loads_prose len
    by simp
  have b: "parse_ai_response (example_world reply_unknown_type ?d) reply_unknown_type =
        \<lparr> action_type = PStr ''delete_namespace'', target = PStr ''deployment'',
          parameters = PDict [], confidence = f_0_99,
          reason = [Lit ''AI Analysis: '', Fmt (PStr ''No reason provided'')] \<rparr>"
    using malformed_reply_handling
            [where raw = reply_unknown_type and t = reply_unknown_type
               and w = "example_world reply_unknown_type ?d"
               and kvs = "[(''action_type'', PStr ''delete_namespace''),
                           (''target'', PStr ''deployment''),
                           (''confidence'', PFloat f_0_99)]"
               and c = f_0_99]
          extract_unknown_type loads_unknown_type
    by simp
  have c: "parse_ai_response (example_world reply_only_type ?d) reply_only_type =
        \<lparr> action_type = PStr ''restart'', target = PStr ''pod'',
          parameters = PDict [], confidence = f_0_5,
          reason = [Lit ''AI Analysis: '', Fmt (PStr ''No reason provided'')] \<rparr>"
    using malformed_reply_handling
            [where raw = reply_only_type and t = reply_only_type
               and w = "example_world reply_only_type ?d"
               and kvs = "[(''action_type'', PStr ''restart'')]"]
          extract_only_type loads_only_type
    by simp
  have body: "parse_body (example_world reply_null_confidence ?d) reply_null_confidence
                = Inl TypeError"
    using extract_null_confidence loads_null_confidence
    by (simp add: parse_body_def build_action_def exn_bind_def)
  have d: "parse_ai_response (example_world reply_null_confidence ?d) reply_null_confidence =
        \<lparr> action_type = PStr ''investigate'', target = PStr ''pod'',
          parameters = PDict [], confidence = f_0_0,
          reason = [Lit ''AI analysis error: '', ExnText TypeError] \<rparr>"
    using malformed_reply_handling
            [where raw = reply_null_confidence
               and w = "example_world reply_null_confidence ?d" and e = TypeError]
          body
    by simp
  have d': "parse_ai_response (example_world reply_null_confidence ?d) reply_null_confidence =
        \<lparr> action_type = PStr ''investigate'', target = PStr ''pod'',
          parameters = PDict [], confidence = f_0_0,
          reason = [Lit ''AI analysis error: '', ExnText TypeError] \<rparr>"
    using malformed_reply_handling
            [where raw = reply_null_confidence and t = reply_null_confidence
               and w = "example_world reply_null_confidence ?d"
               and kvs = "[(''action_type'', PStr ''restart''), (''confidence'', PNone)]"
               and e = TypeError]
          extract_null_confidence loads_null_confidence
    by simp
  have e: "parse_ai_response (example_world reply_list ?d) reply_list =
        \<lparr> action_type = PStr ''investigate'', target = PStr ''pod'',
          parameters = PDict [], confidence = f_0_0,
          reason = [Lit ''AI analysis error: '', ExnText AttributeError] \<rparr>"
    using malformed_reply_handling
            [where raw = reply_list and t = reply_list
               and w = "example_world reply_list ?d" and v = "PList [PInt 1, PInt 2]"]
          extract_list loads_list
    by simp
  have f: "analyze_alert (timeout_world ?d) True unmatched_alert = None
           \<and> action_type (fst (classify (timeout_world ?d) True ?st unmatched_alert))
               = PStr ''investigate''
           \<and> confidence (fst (classify (timeout_world ?d) True ?st unmatched_alert)) = f_0_0"
    using malformed_reply_handling
            [where w = "timeout_world ?d" and e = "OtherException ''timeout''"
               and al = unmatched_alert and st = ?st]
          timeout_world_chat [of ?d unmatched_alert] unmatched_alert_no_rule
    by simp
  from a b c d d' e f show ?thesis by simp
qed

text \<open>
  The claim as stated fails on JSON that misses required keys: the reply
  \<open>reply_only_type\<close> gives a restart with confidence 0.5, not an investigate action
  with confidence 0.3, and its reason holds nothing of the raw reply.
\<close>

theorem malformed_reply_counterexample:
  "json_loads (example_world reply_only_type (example_deployment 2)) reply_only_type =
     Inr (PDict [(''action_type'', PStr ''restart'')])
   \<and> parse_ai_response (example_world reply_only_type (example_deployment 2)) reply_only_type =
     \<lparr> action_type = PStr ''restart'', target = PStr ''pod'', parameters = PDict [],
       confidence = f_0_5,
       reason = [Lit ''AI Analysis: '', Fmt (PStr ''No reason provided'')] \<rparr>
   \<and> f_0_5 \<noteq> f_0_3"
proof -
  have "py_float (example_world reply_only_type (example_deployment 2))
          (case map_of [(''action_type'', PStr ''restart'')] ''confidence'' of
             Some v \<Rightarrow> v | None \<Rightarrow> PFloat f_0_5) = Inr f_0_5"
    by simp
  then show ?thesis
    using parse_ai_response_object
            [of reply_only_type reply_only_type
                "example_world reply_only_type (example_deployment 2)"
                "[(''action_type'', PStr ''restart'')]" f_0_5]
          extract_only_type loads_only_type
    by (simp add: f_0_5_def f_0_3_def)
qed


lemma parse_unknown_type:
  "parse_ai_response (example_world reply_unknown_type d) reply_unknown_type =
     \<lparr> action_type = PStr ''delete_namespace'', target = PStr ''deployment'',
       parameters = PDict [], confidence = f_0_99,
       reason = [Lit ''AI Analysis: '', Fmt (PStr ''No reason provided'')] \<rparr>"
  using parse_ai_response_object
          [of reply_unknown_type reply_unknown_type "example_world reply_unknown_type d"
              "[(''action_type'', PStr ''delete_namespace''), (''target'', PStr ''deployment''),
                (''confidence'', PFloat f_0_99)]" f_0_99]
        extract_unknown_type loads_unknown_type
  by simp

lemma classify_reasoner:
  assumes "pm_classify al = None" and "chat_completion w al = Inr reply"
  shows "fst (classify w True st al) = parse_ai_response w reply"
  using assms by (simp add: classify_def analyze_alert_def exn_bind_def Let_def)

text \<open>
  Claim C10, as amended. When the reply parses as a JSON object and its confidence
  (0.5 when the key is missing) converts to a float, the action's type is the value
  under \<^verbatim>\<open>action_type\<close> taken as it is, \<^verbatim>\<open>investigate\<close> when the key is
  missing, and it is checked against nothing. When the reply parses to something other
  than an object, or its confidence does not convert, the action's type is
  \<^verbatim>\<open>investigate\<close>. Consequently there is a syntactically valid reply,
  \<open>reply_unknown_type\<close>, for which the pipeline produces an action that passes the
  autonomy gate and that \<^verbatim>\<open>execute\<close> rejects with the error result for an
  unknown action type.
\<close>

theorem reply_action_type_unvalidated:
  "(extract_json raw = Inr t \<and> json_loads w t = Inr (PDict kvs)
    \<and> py_float w (case map_of kvs ''confidence'' of Some v \<Rightarrow> v | None \<Rightarrow> PFloat f_0_5) = Inr c
    \<longrightarrow> action_type (parse_ai_response w raw) =
          (case map_of kvs ''action_type'' of Some v \<Rightarrow> v | None \<Rightarrow> PStr ''investigate''))
   \<and> (extract_json raw = Inr t \<and> json_loads w t = Inr u \<and> (\<forall>kvs. u \<noteq> PDict kvs)
    \<longrightarrow> action_type (parse_ai_response w raw) = PStr ''investigate'')
   \<and> (extract_json raw = Inr t \<and> json_loads w t = Inr (PDict kvs)
    \<and> py_float w (case map_of kvs ''confidence'' of Some v \<Rightarrow> v | None \<Rightarrow> PFloat f_0_5) = Inl e
    \<longrightarrow> action_type (parse_ai_response w raw) = PStr ''investigate'')
   \<and> action_type (fst (classify (example_world reply_unknown_type d) True st unmatched_alert))
        = PStr ''delete_namespace''
   \<and> fst (should_auto_execute st'
             (fst (classify (example_world reply_unknown_type d) True st unmatched_alert)) False)
        = True
   \<and> execute (example_world reply_unknown_type d) r
        (fst (classify (example_world reply_unknown_type d) True st unmatched_alert))
        unmatched_alert =
        (Inr [(''status'', RVal (PStr ''error'')),
              (''message'', RText [Lit ''Unknown action type: '',
                                   Fmt (PStr ''delete_namespace'')])], r)"
proof -
  let ?w = "example_world reply_unknown_type d"
  have cl: "fst (classify ?w True st unmatched_alert) = parse_ai_response ?w reply_unknown_type"
    by (rule classify_reasoner [OF unmatched_alert_no_rule]) (simp add: example_world_def)
  have ty: "action_type (parse_ai_response ?w reply_unknown_type) = PStr ''delete_namespace''"
    by (simp add: parse_unknown_type)
  have gate: "fst (should_auto_execute st' (parse_ai_response ?w reply_unknown_type) False) = True"
    by (simp add: parse_unknown_type should_auto_execute_def get_confidence_threshold_def
        f_0_85_def f_0_99_def Let_def)
  have ex: "execute ?w r (parse_ai_response ?w reply_unknown_type) unmatched_alert =
        (Inr [(''status'', RVal (PStr ''error'')),
              (''message'', RText [Lit ''Unknown action type: '',
                                   Fmt (action_type (parse_ai_response ?w reply_unknown_type))])], r)"
    by (rule unknown_action_type) (simp_all add: ty)
  have obj: "extract_json raw = Inr t \<and> json_loads w t = Inr (PDict kvs)
    \<and> py_float w (case map_of kvs ''confidence'' of Some v \<Rightarrow> v | None \<Rightarrow> PFloat f_0_5) = Inr c
    \<longrightarrow> action_type (parse_ai_response w raw) =
          (case map_of kvs ''action_type'' of Some v \<Rightarrow> v | None \<Rightarrow> PStr ''investigate'')"
    using parse_ai_response_object [of raw t w kvs c] by simp
  have nob: "extract_json raw = Inr t \<and> json_loads w t = Inr u \<and> (\<forall>kvs. u \<noteq> PDict kvs)
    \<longrightarrow> action_type (parse_ai_response w raw) = PStr ''investigate''"
    using parse_ai_response_not_object [of raw t w u] by auto
  have bad: "extract_json raw = Inr t \<and> json_loads w t = Inr (PDict kvs)
    \<and> py_float w (case map_of kvs ''confidence'' of Some v \<Rightarrow> v | None \<Rightarrow> PFloat f_0_5) = Inl e
    \<longrightarrow> action_type (parse_ai_response w raw) = PStr ''investigate''"
    using parse_body_bad_confidence [of raw t w kvs e] parse_failure_investigate [of w raw e]
    by blast
  from cl ty gate ex obj nob bad show ?thesis by simp
qed

text \<open>
  The first three parts at the replies \<open>reply_unknown_type\<close>, \<open>reply_list\<close> and
  \<open>reply_null_confidence\<close>.
\<close>

theorem reply_action_type_unvalidated_witness:
  "action_type (parse_ai_response (example_world reply_unknown_type (example_deployment 2))
                  reply_unknown_type) = PStr ''delete_namespace''
   \<and> action_type (parse_ai_response (example_world reply_list (example_deployment 2))
                     reply_list) = PStr ''investigate''
   \<and> action_type (parse_ai_response (example_world reply_null_confidence (example_deployment 2))
                     reply_null_confidence) = PStr ''investigate''"
proof -
  let ?d = "example_deployment 2"
  have "py_float (example_world reply_unknown_type ?d)
          (case map_of [(''action_type'', PStr ''delete_namespace''),
                        (''target'', PStr ''deployment''), (''confidence'', PFloat f_0_99)]
                  ''confidence'' of
             Some v \<Rightarrow> v | None \<Rightarrow> PFloat f_0_5) = Inr f_0_99"
    by simp
  then have a: "action_type (parse_ai_response (example_world reply_unknown_type ?d)
                  reply_unknown_type) = PStr ''delete_namespace''"
    using reply_action_type_unvalidated
            [where raw = reply_unknown_type and t = reply_unknown_type
               and w = "example_world reply_unknown_type ?d"
               and kvs = "[(''action_type'', PStr ''delete_namespace''),
                           (''target'', PStr ''deployment''),
                           (''confidence'', PFloat f_0_99)]"
               and c = f_0_99]
          extract_unknown_type loads_unknown_type
    by simp
  have b: "action_type (parse_ai_response (example_world reply_list ?d) reply_list)
             = PStr ''investigate''"
    using reply_action_type_unvalidated
            [where raw = reply_list and t = reply_list
               and w = "example_world reply_list ?d" and u = "PList [PInt 1, PInt 2]"]
          extract_list loads_list
    by simp
  have c: "action_type (parse_ai_response (example_world reply_null_confidence ?d)
                          reply_null_confidence) = PStr ''investigate''"
    using reply_action_type_unvalidated
            [where raw = reply_null_confidence and t = reply_null_confidence
               and w = "example_world reply_null_confidence ?d"
               and kvs = "[(''action_type'', PStr ''restart''), (''confidence'', PNone)]"
               and e = TypeError]
          extract_null_confidence loads_null_confidence
    by simp
  from a b c show ?thesis by simp
qed

text \<open>
  The claim as stated fails on a reply that parses as JSON and whose confidence does
  not convert: \<open>reply_null_confidence\<close> names the type \<^verbatim>\<open>restart\<close>, the
  conversion of \<^verbatim>\<open>null\<close> raises, and the handler returns an investigate
  action.
\<close>

theorem reply_action_type_counterexample:
  "json_loads (example_world reply_null_confidence (example_deployment 2))
     reply_null_confidence =
     Inr (PDict [(''action_type'', PStr ''restart''), (''confidence'', PNone)])
   \<and> parse_ai_response (example_world reply_null_confidence (example_deployment 2))
        reply_null_confidence =
        \<lparr> action_type = PStr ''investigate'', target = PStr ''pod'',
          parameters = PDict [], confidence = f_0_0,
          reason = [Lit ''AI analysis error: '', ExnText TypeError] \<rparr>"
proof -
  have "parse_body (example_world reply_null_confidence (example_deployment 2))
          reply_null_confidence = Inl TypeError"
    using extract_null_confidence loads_null_confidence
    by (simp add: parse_body_def build_action_def exn_bind_def)
  then show ?thesis
    using loads_null_confidence by (simp add: parse_ai_response_def)
qed

section \<open>The executor\<close>

lemma max_one_ge: "max_one x = Inr n \<Longrightarrow> ge_one n"
proof (cases x)
  case (PFloat f)
  assume "max_one x = Inr n"
  with PFloat show ?thesis
    by (cases f) (auto simp: max_one_def exn_bind_def split: if_splits)
qed (auto simp: max_one_def exn_bind_def split: if_splits)

lemma scale_try_success:
  assumes "scale_try w r nm direction increment to_spec = (Inr res, r')"
  shows "\<exists>d n. read_deployment w (api_calls r) (namespace r) nm = Inr d
           \<and> new_replicas w (replicas d) (replicas d) direction increment to_spec = Inr n
           \<and> map_of res ''status'' = Some (RVal (PStr ''success''))
           \<and> map_of res ''from'' = Some (RVal (replicas d))
           \<and> map_of res ''to'' = Some (RVal n)
           \<and> api_calls r' = api_calls r @ [ReadDeployment (namespace r) nm,
                                            PatchDeployment (namespace r) nm (d\<lparr>replicas := n\<rparr>)]
           \<and> actions_taken r' = actions_taken r @ [res]"
  using assms
  by (auto simp: scale_try_def Let_def issue_def taken_def
      split: sum.splits option.splits)


lemma scale_not_dry:
  assumes "parameters act = PDict ps" and "\<not> dry_run r"
  shows "scale w r nm act =
           catch_api
             (\<lambda>e. [(''status'', RVal (PStr ''error'')),
                    (''message'', RText [Lit ''Failed to scale: '', Lit (api_reason e)]),
                    (''error'', RText [ExnText e])])
             (scale_try w r nm
                (case map_of ps ''direction'' of Some v \<Rightarrow> v | None \<Rightarrow> PStr ''up'')
                (case map_of ps ''increment'' of Some v \<Rightarrow> v | None \<Rightarrow> PInt 1)
                (case map_of ps ''to_spec'' of Some v \<Rightarrow> v | None \<Rightarrow> PBool False))"
  using assms by (simp add: scale_def exn_bind_def)

lemma catch_api_success:
  assumes "catch_api h x = (Inr res, r')"
    and "map_of res ''status'' = Some (RVal (PStr ''success''))"
    and "\<And>e. map_of (h e) ''status'' \<noteq> Some (RVal (PStr ''success''))"
  shows "x = (Inr res, r')"
  using assms by (cases x) (auto simp: catch_api_def split: sum.splits if_splits)

text \<open>
  Claim C2, as amended. For every scale action with direction \<^verbatim>\<open>down\<close> whose
  parameter \<^verbatim>\<open>to_spec\<close> is absent or falsy, for any current replica count and any
  increment: whenever the scaling succeeds, the new replica count, which is the count
  patched into the deployment and the \<^verbatim>\<open>to\<close> field of the result, is at
  least 1.
\<close>

theorem scale_down_floor:
  assumes "action_type act = PStr ''scale''"
    and "parameters act = PDict ps"
    and "map_of ps ''direction'' = Some (PStr ''down'')"
    and "\<not> truthy (case map_of ps ''to_spec'' of Some v \<Rightarrow> v | None \<Rightarrow> PBool False)"
    and "execute w r act al = (Inr res, r')"
    and "map_of res ''status'' = Some (RVal (PStr ''success''))"
  shows "\<exists>n d. map_of res ''to'' = Some (RVal n) \<and> ge_one n
           \<and> api_calls r' = api_calls r @ [ReadDeployment (namespace r) (service_of al),
                                            PatchDeployment (namespace r) (service_of al) d]
           \<and> replicas d = n"
proof -
  let ?nm = "service_of al"
  let ?inc = "case map_of ps ''increment'' of Some v \<Rightarrow> v | None \<Rightarrow> PInt 1"
  let ?ts = "case map_of ps ''to_spec'' of Some v \<Rightarrow> v | None \<Rightarrow> PBool False"
  have ex: "scale w r ?nm act = (Inr res, r')"
    using assms(1,5) by (simp add: execute_def service_of_def)
  have nd: "\<not> dry_run r"
  proof
    assume "dry_run r"
    then have "map_of res ''status'' = Some (RVal (PStr ''dry_run''))"
      using ex assms(2) by (auto simp: scale_def exn_bind_def)
    with assms(6) show False by simp
  qed
  have "catch_api
             (\<lambda>e. [(''status'', RVal (PStr ''error'')),
                    (''message'', RText [Lit ''Failed to scale: '', Lit (api_reason e)]),
                    (''error'', RText [ExnText e])])
             (scale_try w r ?nm (PStr ''down'') ?inc ?ts) = (Inr res, r')"
    using ex scale_not_dry [OF assms(2) nd, of w ?nm] assms(3) by simp
  then have "scale_try w r ?nm (PStr ''down'') ?inc ?ts = (Inr res, r')"
    by (rule catch_api_success) (simp_all add: assms(6))
  then obtain d n where d: "new_replicas w (replicas d) (replicas d) (PStr ''down'') ?inc ?ts = Inr n"
    and t: "map_of res ''to'' = Some (RVal n)"
    and c: "api_calls r' = api_calls r @ [ReadDeployment (namespace r) ?nm,
                                         PatchDeployment (namespace r) ?nm (d\<lparr>replicas := n\<rparr>)]"
    using scale_try_success by blast
  from d assms(4) have "exn_bind (py_sub w (replicas d) ?inc) max_one = Inr n"
    by (simp add: new_replicas_def)
  then have "ge_one n"
    by (auto simp: exn_bind_def split: sum.splits dest: max_one_ge)
  with t c show ?thesis by auto
qed


lemmas run_defs =
  execute_def restart_def restart_try_def scale_def scale_try_def new_replicas_def
  rollback_def rollback_try_def py_add_def py_sub_def max_one_def catch_api_def catch_all_def
  issue_def taken_def exn_bind_def example_world_def example_deployment_def
  example_remediator_def Let_def

text \<open>Scaling a deployment of two replicas down by five.\<close>

lemma scale_down_run:
  "execute (example_world [] (example_deployment 2)) (example_remediator False)
     scale_down_action unmatched_alert =
     (Inr [(''status'', RVal (PStr ''success'')),
           (''message'', RText [Lit ''Scaled '', Lit ''web'', Lit '' from '', Fmt (PInt 2),
                                Lit '' to '', Fmt (PInt 1)]),
           (''action'', RVal (PStr ''scale'')),
           (''target'', RVal (PStr ''web'')),
           (''from'', RVal (PInt 2)),
           (''to'', RVal (PInt 1))],
      \<lparr> namespace = ''helix-dev'', dry_run = False,
        actions_taken =
          [[(''status'', RVal (PStr ''success'')),
            (''message'', RText [Lit ''Scaled '', Lit ''web'', Lit '' from '', Fmt (PInt 2),
                                 Lit '' to '', Fmt (PInt 1)]),
            (''action'', RVal (PStr ''scale'')),
            (''target'', RVal (PStr ''web'')),
            (''from'', RVal (PInt 2)),
            (''to'', RVal (PInt 1))]],
        api_calls = [ReadDeployment ''helix-dev'' ''web'',
                     PatchDeployment ''helix-dev'' ''web''
                       ((example_deployment 2)\<lparr>replicas := PInt 1\<rparr>)] \<rparr>)"
  by (simp add: run_defs scale_down_action_def unmatched_alert_def)

text \<open>With two replicas and an increment of five, the deployment is patched to one replica.\<close>

theorem scale_down_floor_witness:
  "\<exists>d. api_calls (snd (execute (example_world [] (example_deployment 2))
                          (example_remediator False) scale_down_action unmatched_alert)) =
          [ReadDeployment ''helix-dev'' ''web'', PatchDeployment ''helix-dev'' ''web'' d]
        \<and> replicas d = PInt 1"
proof -
  let ?w = "example_world [] (example_deployment 2)"
  obtain res r' where run:
    "execute ?w (example_remediator False) scale_down_action unmatched_alert = (Inr res, r')"
    and st: "map_of res ''status'' = Some (RVal (PStr ''success''))"
    and t: "map_of res ''to'' = Some (RVal (PInt 1))"
    using scale_down_run by simp
  have "\<exists>n d. map_of res ''to'' = Some (RVal n) \<and> ge_one n
           \<and> api_calls r' = api_calls (example_remediator False) @
                [ReadDeployment (namespace (example_remediator False)) (service_of unmatched_alert),
                 PatchDeployment (namespace (example_remediator False)) (service_of unmatched_alert) d]
           \<and> replicas d = n"
    by (rule scale_down_floor
              [where ps = "[(''direction'', PStr ''down''), (''increment'', PInt 5)]",
               OF _ _ _ _ run st])
       (simp_all add: scale_down_action_def)
  then show ?thesis
    using run t by (auto simp: example_remediator_def service_of_def unmatched_alert_def)
qed

text \<open>
  The claim as stated fails when \<^verbatim>\<open>to_spec\<close> is set: the direction is not
  looked at, the count read from the deployment is patched back, and for a deployment
  scaled to zero the result reports \<^verbatim>\<open>to: 0\<close>.
\<close>

theorem scale_down_floor_counterexample:
  "execute (example_world [] (example_deployment 0)) (example_remediator False)
     scale_down_to_spec_action unmatched_alert =
     (Inr [(''status'', RVal (PStr ''success'')),
           (''message'', RText [Lit ''Scaled '', Lit ''web'', Lit '' from '', Fmt (PInt 0),
                                Lit '' to '', Fmt (PInt 0)]),
           (''action'', RVal (PStr ''scale'')),
           (''target'', RVal (PStr ''web'')),
           (''from'', RVal (PInt 0)),
           (''to'', RVal (PInt 0))],
      \<lparr> namespace = ''helix-dev'', dry_run = False,
        actions_taken =
          [[(''status'', RVal (PStr ''success'')),
            (''message'', RText [Lit ''Scaled '', Lit ''web'', Lit '' from '', Fmt (PInt 0),
                                 Lit '' to '', Fmt (PInt 0)]),
            (''action'', RVal (PStr ''scale'')),
            (''target'', RVal (PStr ''web'')),
            (''from'', RVal (PInt 0)),
            (''to'', RVal (PInt 0))]],
        api_calls = [ReadDeployment ''helix-dev'' ''web'',
                     PatchDeployment ''helix-dev'' ''web'' (example_deployment 0)] \<rparr>)
   \<and> \<not> ge_one (PInt 0)"
  by (simp add: run_defs scale_down_to_spec_action_def unmatched_alert_def)

text \<open>
  Claim C7 says that \<^verbatim>\<open>execute\<close> returns a result for every action and alert
  and never raises. The handlers of \<^verbatim>\<open>_restart\<close> and \<^verbatim>\<open>_scale\<close> catch
  \<^verbatim>\<open>ApiException\<close> only, unlike those of \<^verbatim>\<open>_rollback\<close> and
  \<^verbatim>\<open>_investigate\<close>. For a scale action whose increment is the string
  \<^verbatim>\<open>"2"\<close>, the sum of the replica count and the increment is a type error, which
  leaves \<^verbatim>\<open>execute\<close> after the deployment has been read.
\<close>

theorem execute_raises_type_error:
  "execute (example_world [] (example_deployment 2)) (example_remediator False)
     string_increment_action unmatched_alert =
     (Inl TypeError,
      \<lparr> namespace = ''helix-dev'', dry_run = False, actions_taken = [],
        api_calls = [ReadDeployment ''helix-dev'' ''web''] \<rparr>)"
  by (simp add: run_defs string_increment_action_def unmatched_alert_def)

text \<open>
  Claim C8 says that the alert \<^verbatim>\<open>TooFewReplicas\<close>, executed against a deployment
  of 2 current and 5 specified replicas, gives \<^verbatim>\<open>from: 2, to: 5\<close>. The alert
  does classify to the scale action with \<^verbatim>\<open>to_spec\<close>, but \<^verbatim>\<open>_scale\<close> reads
  both counts from \<^verbatim>\<open>spec.replicas\<close>: the result is \<^verbatim>\<open>from: 2, to: 2\<close>
  when that field holds 2, and \<^verbatim>\<open>from: 5, to: 5\<close> when it holds 5 and two
  replicas are available.
\<close>

theorem too_few_replicas_scales_to_current:
  "pm_classify too_few_replicas_alert = Some (rule_action (load_patterns ! 8))
   \<and> action_type (rule_action (load_patterns ! 8)) = PStr ''scale''
   \<and> parameters (rule_action (load_patterns ! 8)) =
        PDict [(''direction'', PStr ''up''), (''to_spec'', PBool True)]
   \<and> fst (execute (example_world [] (example_deployment 2)) (example_remediator False)
             (rule_action (load_patterns ! 8)) too_few_replicas_alert) =
        Inr [(''status'', RVal (PStr ''success'')),
             (''message'', RText [Lit ''Scaled '', Lit ''web'', Lit '' from '', Fmt (PInt 2),
                                  Lit '' to '', Fmt (PInt 2)]),
             (''action'', RVal (PStr ''scale'')),
             (''target'', RVal (PStr ''web'')),
             (''from'', RVal (PInt 2)),
             (''to'', RVal (PInt 2))]
   \<and> fst (execute (example_world [] lagging_deployment) (example_remediator False)
             (rule_action (load_patterns ! 8)) too_few_replicas_alert) =
        Inr [(''status'', RVal (PStr ''success'')),
             (''message'', RText [Lit ''Scaled '', Lit ''web'', Lit '' from '', Fmt (PInt 5),
                                  Lit '' to '', Fmt (PInt 5)]),
             (''action'', RVal (PStr ''scale'')),
             (''target'', RVal (PStr ''web'')),
             (''from'', RVal (PInt 5)),
             (''to'', RVal (PInt 5))]"
proof -
  have c: "pm_classify too_few_replicas_alert = Some (rule_action (load_patterns ! 8))"
    by code_simp
  have a: "rule_action (load_patterns ! 8) =
             \<lparr> action_type = PStr ''scale'', target = PStr ''deployment'',
               parameters = PDict [(''direction'', PStr ''up''), (''to_spec'', PBool True)],
               confidence = f_0_95,
               reason = [Lit ''Replicas below specification - scale to match spec''] \<rparr>"
    by (simp add: load_patterns_def)
  show ?thesis
    unfolding a using c [unfolded a]
    by (simp add: run_defs too_few_replicas_alert_def lagging_deployment_def)
qed

section \<open>Dry run\<close>





section \<open>The orchestrator's histories\<close>

lemma classify_rules_none:
  "(\<forall>r\<in>set rs. alert_name r \<noteq> an \<and> \<not> re_search (pattern r) d) \<Longrightarrow>
   classify_rules rs an d = None"
  by (induction rs) auto

lemma notify_investigation:
  "\<exists>b nt'. send_alert_notification w nt al manual_investigation None False = (Inr b, nt')"
proof (cases "enabled nt")
  case False
  then show ?thesis by (auto simp: send_alert_notification_def)
next
  case True
  obtain m where m: "build_alert_message al manual_investigation None False = Inr m"
    by (simp add: build_alert_message_def manual_investigation_def Let_def)
  obtain b nt' where "send w nt m = (b, nt')" by (cases "send w nt m")
  then show ?thesis using True m by (simp add: send_alert_notification_def)
qed

lemma gate_investigation: "should_auto_execute st manual_investigation dry = (False, st)"
  by (simp add: should_auto_execute_def manual_investigation_def)

text \<open>
  Claim C9. For every alert that fires no rule, neither by its name nor by its
  description, when the reasoner is unavailable: classification returns the investigate
  action with confidence 0.0; the autonomy gate refuses that action, with or without
  dry run; \<^verbatim>\<open>process_alert\<close> appends no entry to the action history and leaves
  the executor untouched; and the alert's entry in the alert history ends in state
  \<open>completed\<close>, recording the action as not executed.
\<close>

theorem unmatched_alert_reasoner_unavailable:
  assumes "\<forall>r\<in>set load_patterns.
             alert_name r \<noteq> (case labels al ''alertname'' of Some v \<Rightarrow> v | None \<Rightarrow> '''')
             \<and> \<not> re_search (pattern r)
                   (lower (case annotations al ''description'' of Some v \<Rightarrow> v | None \<Rightarrow> ''''))"
    and "\<not> ai_available ag"
  shows "fst (classify w (ai_available ag) (stats ag) al) = manual_investigation
       \<and> action_type manual_investigation = PStr ''investigate''
       \<and> confidence manual_investigation = f_0_0
       \<and> fst (should_auto_execute st manual_investigation dry) = False
       \<and> fst (process_alert w ag al) =
           Processed (case labels al ''alertname'' of Some v \<Rightarrow> v | None \<Rightarrow> ''Unknown'')
             (PStr ''investigate'') f_0_0 False None
       \<and> action_history (snd (process_alert w ag al)) = action_history ag
       \<and> the_remediator (snd (process_alert w ag al)) = the_remediator ag
       \<and> alert_history (snd (process_alert w ag al)) =
           alert_history ag @
             [\<lparr> ae_alert = al, ae_status = ''completed'',
                ae_action = Some \<lparr> as_type = PStr ''investigate'', as_confidence = f_0_0,
                                   as_auto_executed = False, as_result = None \<rparr>,
                ae_error = None \<rparr>]"
proof -
  have none: "pm_classify al = None"
    using assms(1) by (simp add: pm_classify_def classify_rules_none)
  have cl: "classify w (ai_available ag) (stats ag) al =
              (manual_investigation,
               (stats ag)\<lparr>total_alerts := total_alerts (stats ag) + 1,
                          manual_review := manual_review (stats ag) + 1\<rparr>)"
    using none assms(2) by (simp add: classify_def Let_def)
  obtain b nt' where nt:
    "send_alert_notification w (the_notifier ag) al manual_investigation None False = (Inr b, nt')"
    using notify_investigation by blast
  have mi: "action_type manual_investigation = PStr ''investigate''"
    "confidence manual_investigation = f_0_0"
    by (simp_all add: manual_investigation_def)
  have run: "process_alert w ag al =
          (Processed (case labels al ''alertname'' of Some v \<Rightarrow> v | None \<Rightarrow> ''Unknown'')
             (PStr ''investigate'') f_0_0 False None,
           set_entry
             (ag\<lparr>alert_history := alert_history ag @
                    [\<lparr> ae_alert = al, ae_status = ''processing'', ae_action = None,
                       ae_error = None \<rparr>],
                 stats := (stats ag)\<lparr>total_alerts := total_alerts (stats ag) + 1,
                                     manual_review := manual_review (stats ag) + 1\<rparr>,
                 the_notifier := nt'\<rparr>)
             (length (alert_history ag))
             \<lparr> ae_alert = al, ae_status = ''completed'',
               ae_action = Some \<lparr> as_type = PStr ''investigate'', as_confidence = f_0_0,
                                  as_auto_executed = False, as_result = None \<rparr>,
               ae_error = None \<rparr>)"
    using cl nt mi
    by (simp add: process_alert_def Let_def gate_investigation execute_step_def)
  show ?thesis
    using cl mi by (simp add: run gate_investigation set_entry_def)
qed


lemma unmatched_alert_fires_no_rule:
  "\<forall>r\<in>set load_patterns.
      alert_name r \<noteq> (case labels unmatched_alert ''alertname'' of Some v \<Rightarrow> v | None \<Rightarrow> '''')
      \<and> \<not> re_search (pattern r)
            (lower (case annotations unmatched_alert ''description'' of
                      Some v \<Rightarrow> v | None \<Rightarrow> ''''))"
  by code_simp

text \<open>
  The alert \<open>unmatched_alert\<close>, processed by a freshly started agent without a
  reasoner.
\<close>

theorem unmatched_alert_reasoner_unavailable_witness:
  "fst (process_alert (example_world [] (example_deployment 2))
          (initial_agent False ''helix-dev'' False True) unmatched_alert) =
     Processed ''DiskPressure'' (PStr ''investigate'') f_0_0 False None
   \<and> action_history (snd (process_alert (example_world [] (example_deployment 2))
                             (initial_agent False ''helix-dev'' False True) unmatched_alert)) = []
   \<and> alert_history (snd (process_alert (example_world [] (example_deployment 2))
                            (initial_agent False ''helix-dev'' False True) unmatched_alert)) =
       [\<lparr> ae_alert = unmatched_alert, ae_status = ''completed'',
          ae_action = Some \<lparr> as_type = PStr ''investigate'', as_confidence = f_0_0,
                             as_auto_executed = False, as_result = None \<rparr>,
          ae_error = None \<rparr>]"
proof -
  have na: "\<not> ai_available (initial_agent False ''helix-dev'' False True)"
    by (simp add: initial_agent_def)
  have nm: "labels unmatched_alert ''alertname'' = Some ''DiskPressure''"
    by (simp add: unmatched_alert_def)
  have h: "action_history (initial_agent False ''helix-dev'' False True) = []"
    "alert_history (initial_agent False ''helix-dev'' False True) = []"
    by (simp_all add: initial_agent_def)
  show ?thesis
    using unmatched_alert_reasoner_unavailable
            [OF unmatched_alert_fires_no_rule na,
             where w = "example_world [] (example_deployment 2)"]
    by (simp add: nm h)
qed

lemma extract_string_increment:
  "extract_json reply_string_increment = Inr reply_string_increment"
  by code_simp

lemma loads_string_increment:
  "example_loads reply_string_increment =
     Inr (PDict [(''action_type'', PStr ''scale''), (''confidence'', PFloat f_0_90),
                 (''parameters'', PDict [(''increment'', PStr ''2'')])])"
  by code_simp

lemma parse_string_increment:
  "parse_ai_response (example_world reply_string_increment d) reply_string_increment =
     string_increment_action"
  using parse_ai_response_object
          [of reply_string_increment reply_string_increment
              "example_world reply_string_increment d"
              "[(''action_type'', PStr ''scale''), (''confidence'', PFloat f_0_90),
                (''parameters'', PDict [(''increment'', PStr ''2'')])]" f_0_90]
        extract_string_increment loads_string_increment
  by (simp add: string_increment_action_def)

lemma classify_reasoner_stats:
  assumes "pm_classify al = None" and "chat_completion w al = Inr reply"
  shows "classify w True st al =
           (parse_ai_response w reply,
            st\<lparr>total_alerts := total_alerts st + 1,
               ai_analysis_used := ai_analysis_used st + 1\<rparr>)"
  using assms by (simp add: classify_def analyze_alert_def exn_bind_def Let_def)

lemma string_increment_raises:
  "execute (example_world reply (example_deployment 2)) (example_remediator False)
     string_increment_action unmatched_alert =
     (Inl TypeError,
      \<lparr> namespace = ''helix-dev'', dry_run = False, actions_taken = [],
        api_calls = [ReadDeployment ''helix-dev'' ''web''] \<rparr>)"
  by (simp add: run_defs string_increment_action_def unmatched_alert_def)

lemma string_increment_gate:
  "should_auto_execute st string_increment_action False =
     (True, st\<lparr>auto_executed := auto_executed st + 1\<rparr>)"
  by (simp add: should_auto_execute_def string_increment_action_def
      get_confidence_threshold_def f_0_85_def f_0_90_def Let_def)

text \<open>
  Claim C4 says that every processed alert appends one entry to the alert history and
  that an entry is appended to the action history exactly when the gate answered true.
  The first half holds. The second fails where \<^verbatim>\<open>execute\<close> raises: for the alert
  \<open>unmatched_alert\<close> and the reply \<open>reply_string_increment\<close> the gate answers true,
  \<^verbatim>\<open>execute\<close> raises the type error of claim C7, the handler of
  \<^verbatim>\<open>process_alert\<close> marks the alert's entry \<open>failed\<close>, and the action history
  stays empty.
\<close>

theorem process_alert_execute_raises:
  "fst (process_alert (example_world reply_string_increment (example_deployment 2))
          (initial_agent False ''helix-dev'' True True) unmatched_alert) =
     Failed ''DiskPressure'' TypeError
   \<and> fst (should_auto_execute
            (snd (classify (example_world reply_string_increment (example_deployment 2)) True
                    (stats (initial_agent False ''helix-dev'' True True)) unmatched_alert))
            (fst (classify (example_world reply_string_increment (example_deployment 2)) True
                    (stats (initial_agent False ''helix-dev'' True True)) unmatched_alert))
            False) = True
   \<and> action_history (snd (process_alert (example_world reply_string_increment (example_deployment 2))
                             (initial_agent False ''helix-dev'' True True) unmatched_alert)) = []
   \<and> alert_history (snd (process_alert (example_world reply_string_increment (example_deployment 2))
                            (initial_agent False ''helix-dev'' True True) unmatched_alert)) =
       [\<lparr> ae_alert = unmatched_alert, ae_status = ''failed'', ae_action = None,
          ae_error = Some TypeError \<rparr>]"
proof -
  let ?w = "example_world reply_string_increment (example_deployment 2)"
  let ?ag = "initial_agent False ''helix-dev'' True True"
  have chat: "chat_completion ?w unmatched_alert = Inr reply_string_increment"
    by (simp add: example_world_def)
  have cl: "classify ?w True (stats ?ag) unmatched_alert =
              (string_increment_action,
               (stats ?ag)\<lparr>total_alerts := total_alerts (stats ?ag) + 1,
                           ai_analysis_used := ai_analysis_used (stats ?ag) + 1\<rparr>)"
    using classify_reasoner_stats [OF unmatched_alert_no_rule chat]
    by (simp add: parse_string_increment)
  have rem: "the_remediator ?ag = example_remediator False"
    by (simp add: initial_agent_def example_remediator_def)
  have nm: "labels unmatched_alert ''alertname'' = Some ''DiskPressure''"
    by (simp add: unmatched_alert_def)
  have flags: "ai_available ?ag" "\<not> DRY_RUN ?ag" "alert_history ?ag = []"
    "action_history ?ag = []"
    by (simp_all add: initial_agent_def)
  have run: "process_alert ?w ?ag unmatched_alert =
          (Failed ''DiskPressure'' TypeError,
           set_entry
             (?ag\<lparr>alert_history :=
                    [\<lparr> ae_alert = unmatched_alert, ae_status = ''processing'',
                       ae_action = None, ae_error = None \<rparr>],
                  stats := (stats ?ag)\<lparr>total_alerts := total_alerts (stats ?ag) + 1,
                             ai_analysis_used := ai_analysis_used (stats ?ag) + 1,
                             auto_executed := auto_executed (stats ?ag) + 1\<rparr>,
                  the_remediator :=
                    \<lparr> namespace = ''helix-dev'', dry_run = False, actions_taken = [],
                      api_calls = [ReadDeployment ''helix-dev'' ''web''] \<rparr>\<rparr>)
             0
             \<lparr> ae_alert = unmatched_alert, ae_status = ''failed'', ae_action = None,
               ae_error = Some TypeError \<rparr>)"
    using cl flags
    by (simp add: process_alert_def Let_def string_increment_gate execute_step_def rem
        string_increment_raises nm)
  show ?thesis
    using cl flags by (simp add: run set_entry_def string_increment_gate)
qed

end
